theory Spec2Isabelle
  imports Main
begin

section \<open>C strings and fixed-size character arrays\<close>

text \<open>
  A \<open>std::string\<close> is a list of bytes and may hold NUL bytes. A fixed-size
  \<open>char\<close> array of a vendor struct is a list whose length is the declared size,
  so \<open>sizeof\<close> of the array is the length of the list. The vendor headers are not
  part of the repository: the declared sizes are whatever the list lengths are.
\<close>

definition NUL :: char where
  "NUL = CHR 0x00"

definition c_str :: "string \<Rightarrow> char list" where
  \<comment> \<open>\<open>s.c_str()\<close>: the bytes of the string followed by a terminator\<close>
  "c_str s = s @ [NUL]"

definition c_string :: "char list \<Rightarrow> char list" where
  \<comment> \<open>what a reader of a \<open>const char*\<close> sees: the bytes before the first NUL\<close>
  "c_string buf = takeWhile (\<lambda>c. c \<noteq> NUL) buf"

definition sizeof :: "char list \<Rightarrow> nat" where
  "sizeof arr = length arr"

definition memset0 :: "char list \<Rightarrow> nat \<Rightarrow> char list" where
  \<comment> \<open>\<open>memset(dest, 0, n)\<close>\<close>
  "memset0 dest n = replicate n NUL @ drop n dest"

definition strncpy :: "char list \<Rightarrow> char list \<Rightarrow> nat \<Rightarrow> char list" where
  \<comment> \<open>\<open>strncpy(dest, src, n)\<close>: exactly \<open>n\<close> bytes are written, the C string of
      \<open>src\<close> cut at \<open>n\<close> bytes and padded with NUL when it is shorter; no terminator
      is written when it is not shorter\<close>
  "strncpy dest src n =
     (let body = take n (c_string src)
      in body @ replicate (n - length body) NUL @ drop n dest)"

definition size_t_sub1 :: "nat \<Rightarrow> nat" where
  \<comment> \<open>\<open>dest_size - 1\<close> on a 64-bit \<open>size_t\<close>\<close>
  "size_t_sub1 n = (if n = 0 then 2 ^ 64 - 1 else n - 1)"

definition copy_cstr :: "char list \<Rightarrow> nat \<Rightarrow> string \<Rightarrow> char list" where
  "copy_cstr dest dest_size src =
     strncpy (memset0 dest dest_size) (c_str src) (size_t_sub1 dest_size)"

datatype fault = AttributeError | BufferOverrun

definition std_string :: "char list \<Rightarrow> fault + string" where
  \<comment> \<open>\<open>std::string(f.Field)\<close> on a char array: the bytes before the first NUL; with
      no NUL inside the array the read runs past it\<close>
  "std_string arr = (if NUL \<in> set arr then Inr (c_string arr) else Inl BufferOverrun)"

section \<open>Vendor structs and their bound attributes\<close>

text \<open>
  The vendor structs are declared in headers outside the repository. A struct value is
  a store of its members by name: the scalar members (integers and doubles, of a type
  \<open>'n\<close> left open), the fixed-size \<open>char\<close> arrays and the numeric arrays.
\<close>

record 'n cstruct =
  scalar :: "string \<Rightarrow> 'n"
  chars :: "string \<Rightarrow> char list"
  array :: "string \<Rightarrow> 'n list"

text \<open>
  The five shapes of attribute declaration that the three modules use, each with the
  attribute name given to pybind11 and the struct member that its accessor touches:
  \<^item> \<open>def_readonly(name, &T::member)\<close>;
  \<^item> \<open>def_property_readonly(name, [](const T &f) { return std::string(f.member); })\<close>;
  \<^item> \<open>def_property\<close> with that getter and the setter
    \<open>strncpy(f.member, v.c_str(), sizeof(f.member))\<close>;
  \<^item> \<open>def_property\<close> with that getter and the setter
    \<open>copy_cstr(f.member, sizeof(f.member), v)\<close>;
  \<^item> \<open>def_property_readonly\<close> whose getter pushes \<open>f.member[i]\<close> for
    \<open>i = 0 .. 4\<close> into a \<open>std::vector<double>\<close>.
\<close>

datatype binding =
  def_readonly string string
| def_property_readonly_string string string
| def_property_strncpy string string
| def_property_copy_cstr string string
| def_property_readonly_vector5 string string

fun binding_name :: "binding \<Rightarrow> string" where
  "binding_name (def_readonly n m) = n"
| "binding_name (def_property_readonly_string n m) = n"
| "binding_name (def_property_strncpy n m) = n"
| "binding_name (def_property_copy_cstr n m) = n"
| "binding_name (def_property_readonly_vector5 n m) = n"

fun member :: "binding \<Rightarrow> string" where
  "member (def_readonly n m) = m"
| "member (def_property_readonly_string n m) = m"
| "member (def_property_strncpy n m) = m"
| "member (def_property_copy_cstr n m) = m"
| "member (def_property_readonly_vector5 n m) = m"

fun is_scalar_binding :: "binding \<Rightarrow> bool" where
  "is_scalar_binding (def_readonly n m) = True"
| "is_scalar_binding b = False"

fun is_string_binding :: "binding \<Rightarrow> bool" where
  "is_string_binding (def_property_readonly_string n m) = True"
| "is_string_binding (def_property_strncpy n m) = True"
| "is_string_binding (def_property_copy_cstr n m) = True"
| "is_string_binding b = False"

fun is_vector_binding :: "binding \<Rightarrow> bool" where
  "is_vector_binding (def_property_readonly_vector5 n m) = True"
| "is_vector_binding b = False"

datatype ('n, 'd) cppval = Num 'n | Str string | Vec "'d list"

text \<open>
  The loop \<open>for (int i = 0; i < 5; i++) v.push_back(f.member[i]);\<close> with
  \<open>to_double\<close> the implicit conversion of the array's element type to \<open>double\<close>
  (the identity on an array of doubles). An index outside the declared array is a read
  past it.
\<close>

function vector5_loop :: "('n \<Rightarrow> 'd) \<Rightarrow> 'n list \<Rightarrow> nat \<Rightarrow> 'd list \<Rightarrow> fault + 'd list" where
  "vector5_loop to_double arr i v =
     (if i < 5
      then (if i < length arr
            then vector5_loop to_double arr (i + 1) (v @ [to_double (arr ! i)])
            else Inl BufferOverrun)
      else Inr v)"
  by pat_completeness auto
termination
  by (relation "measure (\<lambda>(to_double, arr, i, v). 5 - i)") auto

declare vector5_loop.simps [simp del]

fun getter :: "('n \<Rightarrow> 'd) \<Rightarrow> binding \<Rightarrow> 'n cstruct \<Rightarrow> fault + ('n, 'd) cppval" where
  "getter to_double (def_readonly n m) f = Inr (Num (scalar f m))"
| "getter to_double (def_property_readonly_string n m) f = map_sum id Str (std_string (chars f m))"
| "getter to_double (def_property_strncpy n m) f = map_sum id Str (std_string (chars f m))"
| "getter to_double (def_property_copy_cstr n m) f = map_sum id Str (std_string (chars f m))"
| "getter to_double (def_property_readonly_vector5 n m) f =
     map_sum id Vec (vector5_loop to_double (array f m) 0 [])"

fun setter :: "binding \<Rightarrow> 'n cstruct \<Rightarrow> string \<Rightarrow> fault + 'n cstruct" where
  "setter (def_property_strncpy n m) f v =
     Inr (f\<lparr>chars := (chars f)(m := strncpy (chars f m) (c_str v) (sizeof (chars f m)))\<rparr>)"
| "setter (def_property_copy_cstr n m) f v =
     Inr (f\<lparr>chars := (chars f)(m := copy_cstr (chars f m) (sizeof (chars f m)) v)\<rparr>)"
| "setter b f v = Inl AttributeError"

definition lookup_binding :: "binding list \<Rightarrow> string \<Rightarrow> binding option" where
  \<comment> \<open>a later declaration of a name replaces an earlier one\<close>
  "lookup_binding bs name = find (\<lambda>b. binding_name b = name) (rev bs)"

text \<open>
  Reading and writing an attribute of a bound struct from Python. Both return the
  struct as it is after the call; a getter takes the struct by \<open>const\<close> reference.
\<close>

definition py_getattr ::
  "('n \<Rightarrow> 'd) \<Rightarrow> binding list \<Rightarrow> string \<Rightarrow> 'n cstruct \<Rightarrow> (fault + ('n, 'd) cppval) \<times> 'n cstruct" where
  "py_getattr to_double bs name f =
     (case lookup_binding bs name of
        None \<Rightarrow> (Inl AttributeError, f)
      | Some b \<Rightarrow> (getter to_double b f, f))"

definition py_setattr ::
  "binding list \<Rightarrow> string \<Rightarrow> string \<Rightarrow> 'n cstruct \<Rightarrow> (fault + unit) \<times> 'n cstruct" where
  "py_setattr bs name v f =
     (case lookup_binding bs name of
        None \<Rightarrow> (Inl AttributeError, f)
      | Some b \<Rightarrow> (case setter b f v of Inl e \<Rightarrow> (Inl e, f) | Inr f' \<Rightarrow> (Inr (), f')))"

subsection \<open>The bound classes of \<open>ctp_pybind\<close>\<close>

definition CThostFtdcRspInfoField :: "binding list" where
  "CThostFtdcRspInfoField =
    [def_readonly ''ErrorID'' ''ErrorID'',
     def_property_readonly_string ''ErrorMsg'' ''ErrorMsg'']"

definition CThostFtdcRspUserLoginField :: "binding list" where
  "CThostFtdcRspUserLoginField =
    [def_property_readonly_string ''TradingDay'' ''TradingDay'',
     def_property_readonly_string ''LoginTime'' ''LoginTime'',
     def_property_readonly_string ''BrokerID'' ''BrokerID'',
     def_property_readonly_string ''UserID'' ''UserID'',
     def_readonly ''FrontID'' ''FrontID'',
     def_readonly ''SessionID'' ''SessionID'']"

definition CThostFtdcReqUserLoginField :: "binding list" where
  "CThostFtdcReqUserLoginField =
    [def_property_strncpy ''BrokerID'' ''BrokerID'',
     def_property_strncpy ''UserID'' ''UserID'',
     def_property_strncpy ''Password'' ''Password'']"

definition CThostFtdcDepthMarketDataField :: "binding list" where
  "CThostFtdcDepthMarketDataField =
    [def_property_readonly_string ''TradingDay'' ''TradingDay'',
     def_property_readonly_string ''InstrumentID'' ''InstrumentID'',
     def_property_readonly_string ''ExchangeID'' ''ExchangeID'',
     def_readonly ''LastPrice'' ''LastPrice'',
     def_readonly ''PreSettlementPrice'' ''PreSettlementPrice'',
     def_readonly ''PreClosePrice'' ''PreClosePrice'',
     def_readonly ''PreOpenInterest'' ''PreOpenInterest'',
     def_readonly ''OpenPrice'' ''OpenPrice'',
     def_readonly ''HighestPrice'' ''HighestPrice'',
     def_readonly ''LowestPrice'' ''LowestPrice'',
     def_readonly ''Volume'' ''Volume'',
     def_readonly ''Turnover'' ''Turnover'',
     def_readonly ''OpenInterest'' ''OpenInterest'',
     def_readonly ''ClosePrice'' ''ClosePrice'',
     def_readonly ''SettlementPrice'' ''SettlementPrice'',
     def_readonly ''UpperLimitPrice'' ''UpperLimitPrice'',
     def_readonly ''LowerLimitPrice'' ''LowerLimitPrice'',
     def_property_readonly_string ''UpdateTime'' ''UpdateTime'',
     def_readonly ''UpdateMillisec'' ''UpdateMillisec'',
     def_readonly ''BidPrice1'' ''BidPrice1'',
     def_readonly ''BidVolume1'' ''BidVolume1'',
     def_readonly ''AskPrice1'' ''AskPrice1'',
     def_readonly ''AskVolume1'' ''AskVolume1'',
     def_readonly ''AveragePrice'' ''AveragePrice'',
     def_property_readonly_string ''ActionDay'' ''ActionDay'']"

definition CThostFtdcSpecificInstrumentField :: "binding list" where
  "CThostFtdcSpecificInstrumentField =
    [def_property_readonly_string ''InstrumentID'' ''InstrumentID'']"

subsection \<open>The bound classes of \<open>nsq_pybind\<close>\<close>

definition CHSNsqRspInfoField :: "binding list" where
  "CHSNsqRspInfoField =
    [def_readonly ''ErrorID'' ''ErrorID'',
     def_property_readonly_string ''ErrorMsg'' ''ErrorMsg'']"

definition CHSNsqReqUserLoginField :: "binding list" where
  "CHSNsqReqUserLoginField =
    [def_property_copy_cstr ''AccountID'' ''AccountID'',
     def_property_copy_cstr ''Password'' ''Password'']"

definition CHSNsqRspUserLoginField :: "binding list" where
  "CHSNsqRspUserLoginField =
    [def_readonly ''BranchID'' ''BranchID'',
     def_property_readonly_string ''AccountID'' ''AccountID'',
     def_property_readonly_string ''UserName'' ''UserName'',
     def_readonly ''TradingDay'' ''TradingDay'']"

definition CHSNsqFutuDepthMarketDataField :: "binding list" where
  "CHSNsqFutuDepthMarketDataField =
    [def_readonly ''TradingDay'' ''TradingDay'',
     def_property_readonly_string ''InstrumentID'' ''InstrumentID'',
     def_property_readonly_string ''ExchangeID'' ''ExchangeID'',
     def_readonly ''LastPrice'' ''LastPrice'',
     def_readonly ''PreSettlementPrice'' ''PreSettlementPrice'',
     def_readonly ''PreClosePrice'' ''PreClosePrice'',
     def_readonly ''OpenPrice'' ''OpenPrice'',
     def_readonly ''HighestPrice'' ''HighestPrice'',
     def_readonly ''LowestPrice'' ''LowestPrice'',
     def_readonly ''TradeVolume'' ''TradeVolume'',
     def_readonly ''OpenInterest'' ''OpenInterest'',
     def_readonly ''UpdateTime'' ''UpdateTime'',
     def_readonly ''ActionDay'' ''ActionDay'',
     def_property_readonly_vector5 ''BidPrice'' ''BidPrice'',
     def_property_readonly_vector5 ''BidVolume'' ''BidVolume'',
     def_property_readonly_vector5 ''AskPrice'' ''AskPrice'',
     def_property_readonly_vector5 ''AskVolume'' ''AskVolume'']"

definition bound_structs :: "binding list list" where
  "bound_structs =
    [CThostFtdcRspInfoField, CThostFtdcRspUserLoginField, CThostFtdcReqUserLoginField,
     CThostFtdcDepthMarketDataField, CThostFtdcSpecificInstrumentField,
     CHSNsqRspInfoField, CHSNsqReqUserLoginField, CHSNsqRspUserLoginField,
     CHSNsqFutuDepthMarketDataField]"

section \<open>Vendor calls\<close>

text \<open>
  The vendor libraries are closed: what a vendor function returns is a parameter of
  the model, a function of the calls made so far and of the call itself. A pointer is
  an address, with \<open>0\<close> the null pointer; a \<open>const char*\<close> result is \<open>None\<close> when
  null. Every vendor call that a wrapper makes is appended to the sequence of calls, so
  that what was called, with which arguments and how often can be stated.
\<close>

record 'c vendor =
  ret_int :: "'c list \<Rightarrow> 'c \<Rightarrow> int"
  ret_ptr :: "'c list \<Rightarrow> 'c \<Rightarrow> nat"
  ret_str :: "'c list \<Rightarrow> 'c \<Rightarrow> string option"
  ret_bytes :: "'c list \<Rightarrow> 'c \<Rightarrow> char list"

definition int_of_size_t :: "nat \<Rightarrow> int" where
  \<comment> \<open>a \<open>size_t\<close> passed where the callee takes a 32-bit \<open>int\<close>\<close>
  "int_of_size_t n = (int n + 2 ^ 31) mod 2 ^ 32 - 2 ^ 31"

section \<open>\<open>ctp_pybind\<close>: the class \<open>PyMdApi\<close>\<close>

datatype ctp_call =
  CreateFtdcMdApi "char list"
| MdApi_Release nat
| MdApi_RegisterSpi nat nat
| MdApi_RegisterFront nat "char list"
| MdApi_Init nat
| MdApi_Join nat
| MdApi_ReqUserLogin nat nat int
| MdApi_SubscribeMarketData nat "char list list" int
| MdApi_GetApiVersion

record PyMdApi =
  api :: nat
  ctp_calls :: "ctp_call list"

definition ctp_do :: "PyMdApi \<Rightarrow> ctp_call \<Rightarrow> PyMdApi" where
  "ctp_do s c = s\<lparr>ctp_calls := ctp_calls s @ [c]\<rparr>"

definition ctp_int :: "ctp_call vendor \<Rightarrow> PyMdApi \<Rightarrow> ctp_call \<Rightarrow> int \<times> PyMdApi" where
  "ctp_int V s c = (ret_int V (ctp_calls s) c, ctp_do s c)"

definition PyMdApi_ctor :: "ctp_call vendor \<Rightarrow> ctp_call list \<Rightarrow> string \<Rightarrow> PyMdApi" where
  "PyMdApi_ctor V calls flow_path =
     (let c = CreateFtdcMdApi (c_str flow_path)
      in \<lparr>api = ret_ptr V calls c, ctp_calls = calls @ [c]\<rparr>)"

definition PyMdApi_dtor :: "PyMdApi \<Rightarrow> PyMdApi" where
  "PyMdApi_dtor s =
     (if api s \<noteq> 0 then (ctp_do s (MdApi_Release (api s)))\<lparr>api := 0\<rparr> else s)"

definition PyMdApi_RegisterSpi :: "PyMdApi \<Rightarrow> nat \<Rightarrow> PyMdApi" where
  "PyMdApi_RegisterSpi s spi =
     (if api s \<noteq> 0 then ctp_do s (MdApi_RegisterSpi (api s) spi) else s)"

definition PyMdApi_RegisterFront :: "PyMdApi \<Rightarrow> char list \<Rightarrow> PyMdApi" where
  "PyMdApi_RegisterFront s pszFrontAddress =
     (if api s \<noteq> 0 then ctp_do s (MdApi_RegisterFront (api s) pszFrontAddress) else s)"

definition PyMdApi_Init :: "PyMdApi \<Rightarrow> PyMdApi" where
  "PyMdApi_Init s = (if api s \<noteq> 0 then ctp_do s (MdApi_Init (api s)) else s)"

definition PyMdApi_Join :: "ctp_call vendor \<Rightarrow> PyMdApi \<Rightarrow> int \<times> PyMdApi" where
  "PyMdApi_Join V s = (if api s \<noteq> 0 then ctp_int V s (MdApi_Join (api s)) else (- 1, s))"

definition PyMdApi_ReqUserLogin ::
  "ctp_call vendor \<Rightarrow> PyMdApi \<Rightarrow> nat \<Rightarrow> int \<Rightarrow> int \<times> PyMdApi" where
  "PyMdApi_ReqUserLogin V s pReqUserLoginField nRequestID =
     (if api s \<noteq> 0
      then ctp_int V s (MdApi_ReqUserLogin (api s) pReqUserLoginField nRequestID)
      else (- 1, s))"

fun push_symbols :: "string list \<Rightarrow> char list list \<Rightarrow> char list list" where
  \<comment> \<open>\<open>for (auto &s : symbols) p_symbols.push_back(const_cast<char*>(s.c_str()));\<close>\<close>
  "push_symbols [] p_symbols = p_symbols"
| "push_symbols (s # symbols) p_symbols = push_symbols symbols (p_symbols @ [c_str s])"

definition PyMdApi_SubscribeMarketData ::
  "ctp_call vendor \<Rightarrow> PyMdApi \<Rightarrow> string list \<Rightarrow> int \<times> PyMdApi" where
  "PyMdApi_SubscribeMarketData V s symbols =
     (if api s = 0 then (- 1, s)
      else let p_symbols = push_symbols symbols []
           in ctp_int V s
                (MdApi_SubscribeMarketData (api s) p_symbols (int_of_size_t (length p_symbols))))"

definition PyMdApi_GetApiVersion :: "ctp_call vendor \<Rightarrow> PyMdApi \<Rightarrow> string option \<times> PyMdApi" where
  "PyMdApi_GetApiVersion V s =
     (ret_str V (ctp_calls s) MdApi_GetApiVersion, ctp_do s MdApi_GetApiVersion)"

section \<open>\<open>nsq_pybind\<close>: the class \<open>PyNsqApi\<close>\<close>

record CHSNsqReqFutuDepthMarketDataField =
  ExchangeID :: "char list"
  InstrumentID :: "char list"

text \<open>
  The two array sizes of the request record come from the vendor header; a
  value-initialised record holds zeroed arrays of these sizes.
\<close>

record nsq_header =
  sizeof_ExchangeID :: nat
  sizeof_InstrumentID :: nat

definition zero_req :: "nsq_header \<Rightarrow> CHSNsqReqFutuDepthMarketDataField" where
  "zero_req H =
     \<lparr>ExchangeID = replicate (sizeof_ExchangeID H) NUL,
      InstrumentID = replicate (sizeof_InstrumentID H) NUL\<rparr>"

datatype nsq_call =
  NewNsqApi "char list"
| NewNsqApiExt "char list" "char list"
| NsqApi_ReleaseApi nat
| NsqApi_RegisterSpi nat nat
| NsqApi_RegisterFront nat "char list"
| NsqApi_Init nat "char list" "char list" "char list" "char list" "char list"
| NsqApi_ReqUserLogin nat nat int
| NsqApi_GetApiErrorMsg nat int
| GetNsqApiVersion
| NsqApi_ReqFutuDepthMarketDataSubscribe nat "CHSNsqReqFutuDepthMarketDataField list" int int

text \<open>The member \<open>api_\<close> of the class is the field \<open>nsq_api\<close>.\<close>

record PyNsqApi =
  nsq_api :: nat
  nsq_calls :: "nsq_call list"

definition nsq_do :: "PyNsqApi \<Rightarrow> nsq_call \<Rightarrow> PyNsqApi" where
  "nsq_do s c = s\<lparr>nsq_calls := nsq_calls s @ [c]\<rparr>"

definition nsq_int :: "nsq_call vendor \<Rightarrow> PyNsqApi \<Rightarrow> nsq_call \<Rightarrow> int \<times> PyNsqApi" where
  "nsq_int V s c = (ret_int V (nsq_calls s) c, nsq_do s c)"

definition PyNsqApi_ctor ::
  "nsq_call vendor \<Rightarrow> nsq_call list \<Rightarrow> string \<Rightarrow> string \<Rightarrow> PyNsqApi" where
  "PyNsqApi_ctor V calls flow_path sdk_cfg_file_path =
     (if sdk_cfg_file_path = []
      then (let c = NewNsqApi (c_str flow_path)
            in \<lparr>nsq_api = ret_ptr V calls c, nsq_calls = calls @ [c]\<rparr>)
      else (let c = NewNsqApiExt (c_str flow_path) (c_str sdk_cfg_file_path)
            in \<lparr>nsq_api = ret_ptr V calls c, nsq_calls = calls @ [c]\<rparr>))"

definition PyNsqApi_dtor :: "PyNsqApi \<Rightarrow> PyNsqApi" where
  "PyNsqApi_dtor s =
     (if nsq_api s \<noteq> 0 then (nsq_do s (NsqApi_ReleaseApi (nsq_api s)))\<lparr>nsq_api := 0\<rparr> else s)"

definition PyNsqApi_RegisterSpi :: "PyNsqApi \<Rightarrow> nat \<Rightarrow> PyNsqApi" where
  "PyNsqApi_RegisterSpi s spi =
     (if nsq_api s \<noteq> 0 then nsq_do s (NsqApi_RegisterSpi (nsq_api s) spi) else s)"

definition PyNsqApi_RegisterFront :: "nsq_call vendor \<Rightarrow> PyNsqApi \<Rightarrow> string \<Rightarrow> int \<times> PyNsqApi" where
  "PyNsqApi_RegisterFront V s front =
     (if nsq_api s \<noteq> 0 then nsq_int V s (NsqApi_RegisterFront (nsq_api s) (c_str front))
      else (- 1, s))"

definition PyNsqApi_Init ::
  "nsq_call vendor \<Rightarrow> PyNsqApi \<Rightarrow> string \<Rightarrow> string \<Rightarrow> string \<Rightarrow> string \<Rightarrow> string
     \<Rightarrow> int \<times> PyNsqApi" where
  "PyNsqApi_Init V s lic_file safe_level pwd ssl_file ssl_pwd =
     (if nsq_api s \<noteq> 0
      then nsq_int V s (NsqApi_Init (nsq_api s) (c_str lic_file) (c_str safe_level) (c_str pwd)
                          (c_str ssl_file) (c_str ssl_pwd))
      else (- 1, s))"

definition PyNsqApi_ReqUserLogin ::
  "nsq_call vendor \<Rightarrow> PyNsqApi \<Rightarrow> nat \<Rightarrow> int \<Rightarrow> int \<times> PyNsqApi" where
  "PyNsqApi_ReqUserLogin V s req request_id =
     (if nsq_api s \<noteq> 0 then nsq_int V s (NsqApi_ReqUserLogin (nsq_api s) req request_id)
      else (- 1, s))"

definition PyNsqApi_GetApiErrorMsg ::
  "nsq_call vendor \<Rightarrow> PyNsqApi \<Rightarrow> int \<Rightarrow> string \<times> PyNsqApi" where
  "PyNsqApi_GetApiErrorMsg V s err =
     (if nsq_api s = 0 then ([], s)
      else let c = NsqApi_GetApiErrorMsg (nsq_api s) err
           in (case ret_str V (nsq_calls s) c of Some msg \<Rightarrow> msg | None \<Rightarrow> [], nsq_do s c))"

definition PyNsqApi_GetApiVersion :: "nsq_call vendor \<Rightarrow> PyNsqApi \<Rightarrow> string option \<times> PyNsqApi" where
  "PyNsqApi_GetApiVersion V s =
     (ret_str V (nsq_calls s) GetNsqApiVersion, nsq_do s GetNsqApiVersion)"

function fill_reqs ::
  "(string \<times> string) list \<Rightarrow> nat \<Rightarrow> CHSNsqReqFutuDepthMarketDataField list
     \<Rightarrow> CHSNsqReqFutuDepthMarketDataField list" where
  "fill_reqs contracts i reqs =
     (if i < length contracts
      then fill_reqs contracts (i + 1)
             (reqs[i := (reqs ! i)
                \<lparr>ExchangeID :=
                   copy_cstr (ExchangeID (reqs ! i)) (sizeof (ExchangeID (reqs ! i)))
                     (fst (contracts ! i)),
                 InstrumentID :=
                   copy_cstr (InstrumentID (reqs ! i)) (sizeof (InstrumentID (reqs ! i)))
                     (snd (contracts ! i))\<rparr>])
      else reqs)"
  by pat_completeness auto
termination
  by (relation "measure (\<lambda>(contracts, i, reqs). length contracts - i)") auto

declare fill_reqs.simps [simp del]

definition PyNsqApi_ReqFutuDepthMarketDataSubscribe ::
  "nsq_header \<Rightarrow> nsq_call vendor \<Rightarrow> PyNsqApi \<Rightarrow> (string \<times> string) list \<Rightarrow> int
     \<Rightarrow> int \<times> PyNsqApi" where
  "PyNsqApi_ReqFutuDepthMarketDataSubscribe H V s contracts request_id =
     (if nsq_api s = 0 then (- 1, s)
      else let reqs = fill_reqs contracts 0 (replicate (length contracts) (zero_req H))
           in nsq_int V s
                (NsqApi_ReqFutuDepthMarketDataSubscribe (nsq_api s) reqs
                   (int_of_size_t (length reqs)) request_id))"

definition PyNsqApi_SubscribeMarket ::
  "nsq_header \<Rightarrow> nsq_call vendor \<Rightarrow> PyNsqApi \<Rightarrow> string \<Rightarrow> int \<Rightarrow> int \<times> PyNsqApi" where
  "PyNsqApi_SubscribeMarket H V s exchange_id request_id =
     (if nsq_api s = 0 then (- 1, s)
      else let req = (zero_req H)
                 \<lparr>ExchangeID :=
                    copy_cstr (ExchangeID (zero_req H)) (sizeof (ExchangeID (zero_req H)))
                      exchange_id\<rparr>
           in nsq_int V s (NsqApi_ReqFutuDepthMarketDataSubscribe (nsq_api s) [req] 0 request_id))"

section \<open>The callback trampolines \<open>PyMdSpi\<close> and \<open>PyNsqSpi\<close>\<close>

text \<open>
  \<open>PYBIND11_OVERLOAD(void, Base, name, args...)\<close> looks up a Python override of the
  method \<open>name\<close> on the Python object behind \<open>this\<close>; when there is one it is
  called with the arguments, otherwise \<open>Base::name(args...)\<close> is. The Python side is a
  parameter: which method names the callback object overrides. What is called is
  recorded.
\<close>

datatype cb_arg = ArgPtr nat | ArgInt int | ArgBool bool

datatype spi_event =
  PyOverride string "cb_arg list"
| BaseMethod string string "cb_arg list"

definition PYBIND11_OVERLOAD ::
  "string \<Rightarrow> string \<Rightarrow> cb_arg list \<Rightarrow> (string \<Rightarrow> bool) \<Rightarrow> spi_event list \<Rightarrow> spi_event list" where
  "PYBIND11_OVERLOAD base name args overrides evs =
     (if overrides name then evs @ [PyOverride name args]
      else evs @ [BaseMethod base name args])"

definition PyMdSpi_OnFrontConnected :: "(string \<Rightarrow> bool) \<Rightarrow> spi_event list \<Rightarrow> spi_event list" where
  "PyMdSpi_OnFrontConnected = PYBIND11_OVERLOAD ''CThostFtdcMdSpi'' ''OnFrontConnected'' []"

definition PyMdSpi_OnFrontDisconnected ::
  "int \<Rightarrow> (string \<Rightarrow> bool) \<Rightarrow> spi_event list \<Rightarrow> spi_event list" where
  "PyMdSpi_OnFrontDisconnected nReason =
     PYBIND11_OVERLOAD ''CThostFtdcMdSpi'' ''OnFrontDisconnected'' [ArgInt nReason]"

definition PyMdSpi_OnRspUserLogin ::
  "nat \<Rightarrow> nat \<Rightarrow> int \<Rightarrow> bool \<Rightarrow> (string \<Rightarrow> bool) \<Rightarrow> spi_event list \<Rightarrow> spi_event list" where
  "PyMdSpi_OnRspUserLogin pRspUserLogin pRspInfo nRequestID bIsLast =
     PYBIND11_OVERLOAD ''CThostFtdcMdSpi'' ''OnRspUserLogin''
       [ArgPtr pRspUserLogin, ArgPtr pRspInfo, ArgInt nRequestID, ArgBool bIsLast]"

definition PyMdSpi_OnRtnDepthMarketData ::
  "nat \<Rightarrow> (string \<Rightarrow> bool) \<Rightarrow> spi_event list \<Rightarrow> spi_event list" where
  "PyMdSpi_OnRtnDepthMarketData pDepthMarketData =
     PYBIND11_OVERLOAD ''CThostFtdcMdSpi'' ''OnRtnDepthMarketData'' [ArgPtr pDepthMarketData]"

definition PyMdSpi_OnRspSubMarketData ::
  "nat \<Rightarrow> nat \<Rightarrow> int \<Rightarrow> bool \<Rightarrow> (string \<Rightarrow> bool) \<Rightarrow> spi_event list \<Rightarrow> spi_event list" where
  "PyMdSpi_OnRspSubMarketData pSpecificInstrument pRspInfo nRequestID bIsLast =
     PYBIND11_OVERLOAD ''CThostFtdcMdSpi'' ''OnRspSubMarketData''
       [ArgPtr pSpecificInstrument, ArgPtr pRspInfo, ArgInt nRequestID, ArgBool bIsLast]"

definition PyMdSpi_OnRspError ::
  "nat \<Rightarrow> int \<Rightarrow> bool \<Rightarrow> (string \<Rightarrow> bool) \<Rightarrow> spi_event list \<Rightarrow> spi_event list" where
  "PyMdSpi_OnRspError pRspInfo nRequestID bIsLast =
     PYBIND11_OVERLOAD ''CThostFtdcMdSpi'' ''OnRspError''
       [ArgPtr pRspInfo, ArgInt nRequestID, ArgBool bIsLast]"

definition PyNsqSpi_OnFrontConnected :: "(string \<Rightarrow> bool) \<Rightarrow> spi_event list \<Rightarrow> spi_event list" where
  "PyNsqSpi_OnFrontConnected = PYBIND11_OVERLOAD ''CHSNsqSpi'' ''OnFrontConnected'' []"

definition PyNsqSpi_OnFrontDisconnected ::
  "int \<Rightarrow> (string \<Rightarrow> bool) \<Rightarrow> spi_event list \<Rightarrow> spi_event list" where
  "PyNsqSpi_OnFrontDisconnected nResult =
     PYBIND11_OVERLOAD ''CHSNsqSpi'' ''OnFrontDisconnected'' [ArgInt nResult]"

definition PyNsqSpi_OnRspUserLogin ::
  "nat \<Rightarrow> nat \<Rightarrow> int \<Rightarrow> bool \<Rightarrow> (string \<Rightarrow> bool) \<Rightarrow> spi_event list \<Rightarrow> spi_event list" where
  "PyNsqSpi_OnRspUserLogin pRspUserLogin pRspInfo nRequestID bIsLast =
     PYBIND11_OVERLOAD ''CHSNsqSpi'' ''OnRspUserLogin''
       [ArgPtr pRspUserLogin, ArgPtr pRspInfo, ArgInt nRequestID, ArgBool bIsLast]"

definition PyNsqSpi_OnRspFutuDepthMarketDataSubscribe ::
  "nat \<Rightarrow> int \<Rightarrow> bool \<Rightarrow> (string \<Rightarrow> bool) \<Rightarrow> spi_event list \<Rightarrow> spi_event list" where
  "PyNsqSpi_OnRspFutuDepthMarketDataSubscribe pRspInfo nRequestID bIsLast =
     PYBIND11_OVERLOAD ''CHSNsqSpi'' ''OnRspFutuDepthMarketDataSubscribe''
       [ArgPtr pRspInfo, ArgInt nRequestID, ArgBool bIsLast]"

definition PyNsqSpi_OnRtnFutuDepthMarketData ::
  "nat \<Rightarrow> (string \<Rightarrow> bool) \<Rightarrow> spi_event list \<Rightarrow> spi_event list" where
  "PyNsqSpi_OnRtnFutuDepthMarketData pFutuDepthMarketData =
     PYBIND11_OVERLOAD ''CHSNsqSpi'' ''OnRtnFutuDepthMarketData'' [ArgPtr pFutuDepthMarketData]"

section \<open>\<open>exanic_pybind\<close>\<close>

text \<open>
  Handles travel through Python as capsules. A capsule is a heap object of the
  interpreter holding a pointer and a name; the capsule functions of the CPython C API
  are modelled as CPython documents and implements them:
  \<^item> \<open>PyCapsule_IsValid(o, name)\<close> holds when \<open>o\<close> is a capsule, its pointer is
    not null and its name is \<open>name\<close>;
  \<^item> \<open>PyCapsule_GetPointer(o, name)\<close> returns the pointer of such a capsule, and
    otherwise sets an exception and returns null;
  \<^item> \<open>PyCapsule_SetPointer(o, p)\<close> stores \<open>p\<close> in the capsule, except that the
    pointer may not be null: with a null \<open>p\<close> it stores nothing, sets a
    \<open>ValueError\<close> and returns \<open>-1\<close>.
\<close>

datatype py_exception = ValueError | MemoryError | RuntimeError string

datatype heapobj = Capsule nat string | OtherObject

datatype pyobj = PyNone | PyBytes "char list" | PyStr string | PyRef nat

datatype exanic_call =
  exanic_acquire_handle "char list"
| exanic_acquire_rx_buffer nat int int
| exanic_receive_frame nat nat
| exanic_release_rx_buffer nat
| exanic_release_handle nat
| exanic_get_last_error

record interp =
  heap :: "heapobj list"
  exanic_calls :: "exanic_call list"
  error_indicator :: "py_exception option"

definition CAPSULE_EXANIC :: string where
  "CAPSULE_EXANIC = ''exanic_t''"

definition CAPSULE_EXANIC_RX :: string where
  "CAPSULE_EXANIC_RX = ''exanic_rx_t''"

definition deref :: "interp \<Rightarrow> pyobj \<Rightarrow> heapobj option" where
  "deref w obj =
     (case obj of
        PyRef a \<Rightarrow> (if a < length (heap w) then Some (heap w ! a) else None)
      | _ \<Rightarrow> None)"

definition PyCapsule_IsValid :: "interp \<Rightarrow> pyobj \<Rightarrow> string \<Rightarrow> bool" where
  "PyCapsule_IsValid w obj name =
     (case deref w obj of
        Some (Capsule p n) \<Rightarrow> p \<noteq> 0 \<and> n = name
      | _ \<Rightarrow> False)"

definition PyCapsule_GetPointer :: "interp \<Rightarrow> pyobj \<Rightarrow> string \<Rightarrow> nat \<times> interp" where
  "PyCapsule_GetPointer w obj name =
     (case deref w obj of
        Some (Capsule p n) \<Rightarrow>
          (if p \<noteq> 0 \<and> n = name then (p, w)
           else (0, w\<lparr>error_indicator := Some ValueError\<rparr>))
      | _ \<Rightarrow> (0, w\<lparr>error_indicator := Some ValueError\<rparr>))"

definition PyCapsule_SetPointer :: "interp \<Rightarrow> pyobj \<Rightarrow> nat \<Rightarrow> int \<times> interp" where
  "PyCapsule_SetPointer w obj pointer =
     (case (obj, deref w obj) of
        (PyRef a, Some (Capsule p n)) \<Rightarrow>
          (if p = 0 \<or> pointer = 0 then (- 1, w\<lparr>error_indicator := Some ValueError\<rparr>)
           else (0, w\<lparr>heap := (heap w)[a := Capsule pointer n]\<rparr>))
      | _ \<Rightarrow> (- 1, w\<lparr>error_indicator := Some ValueError\<rparr>))"

definition py_capsule :: "interp \<Rightarrow> nat \<Rightarrow> string \<Rightarrow> pyobj \<times> interp" where
  \<comment> \<open>\<open>py::capsule(ptr, name)\<close>: a new capsule, with no destructor\<close>
  "py_capsule w ptr name = (PyRef (length (heap w)), w\<lparr>heap := heap w @ [Capsule ptr name]\<rparr>)"

definition exanic_do :: "interp \<Rightarrow> exanic_call \<Rightarrow> interp" where
  "exanic_do w c = w\<lparr>exanic_calls := exanic_calls w @ [c]\<rparr>"

definition acquire_handle ::
  "exanic_call vendor \<Rightarrow> interp \<Rightarrow> string \<Rightarrow> (py_exception + pyobj) \<times> interp" where
  "acquire_handle V w device_name =
     (let c = exanic_acquire_handle (c_str device_name);
          nic = ret_ptr V (exanic_calls w) c;
          w1 = exanic_do w c
      in if nic = 0 then (Inr PyNone, w1)
         else (case py_capsule w1 nic CAPSULE_EXANIC of (cap, w2) \<Rightarrow> (Inr cap, w2)))"

definition acquire_rx_buffer ::
  "exanic_call vendor \<Rightarrow> interp \<Rightarrow> pyobj \<Rightarrow> int \<Rightarrow> int \<Rightarrow> (py_exception + pyobj) \<times> interp" where
  "acquire_rx_buffer V w handle_cap port_number buffer_number =
     (if \<not> PyCapsule_IsValid w handle_cap CAPSULE_EXANIC
      then (Inl (RuntimeError ''invalid exanic handle capsule''), w)
      else (case PyCapsule_GetPointer w handle_cap CAPSULE_EXANIC of (nic, w1) \<Rightarrow>
        (let c = exanic_acquire_rx_buffer nic port_number buffer_number;
             rx = ret_ptr V (exanic_calls w1) c;
             w2 = exanic_do w1 c
         in if rx = 0 then (Inr PyNone, w2)
            else (case py_capsule w2 rx CAPSULE_EXANIC_RX of (cap, w3) \<Rightarrow> (Inr cap, w3)))))"

text \<open>
  \<open>receive_frame\<close>. The buffer is \<open>std::string buf(max_size, '\0')\<close>. Constructing
  it can throw (\<open>std::length_error\<close> beyond the library's largest string,
  \<open>std::bad_alloc\<close> when memory is short), which pybind11 turns into a Python
  exception; whether it does for a given size is a parameter, as is the content of the
  memory that follows the buffer. The vendor is handed the address and the size of the
  buffer, writes its bytes from that address on, and returns a length \<open>n\<close>. For a
  positive \<open>n\<close> the result is \<open>py::bytes(buf.data(), n)\<close>: the \<open>n\<close> bytes of memory
  from the address of the buffer on, with no comparison of \<open>n\<close> with \<open>max_size\<close>.
  (Constructing the result object is taken to succeed.)
\<close>

record cxx_env =
  string_ctor :: "nat \<Rightarrow> py_exception option"
  beyond :: "nat \<Rightarrow> char"

definition memory_at_buffer :: "char list \<Rightarrow> nat \<Rightarrow> (nat \<Rightarrow> char) \<Rightarrow> nat \<Rightarrow> char" where
  \<comment> \<open>the byte at \<open>buf.data() + i\<close> after the vendor wrote \<open>written\<close> from
      \<open>buf.data()\<close> on: what the vendor wrote there, else NUL inside the string and at
      its terminator \<open>buf.data()[max_size]\<close>, else what the memory after it holds\<close>
  "memory_at_buffer written max_size after i =
     (if i < length written then written ! i
      else if i \<le> max_size then NUL
      else after (i - max_size - 1))"

definition py_bytes :: "(nat \<Rightarrow> char) \<Rightarrow> nat \<Rightarrow> pyobj" where
  \<comment> \<open>\<open>py::bytes(ptr, n)\<close>: the \<open>n\<close> bytes from \<open>ptr\<close> on\<close>
  "py_bytes mem n = PyBytes (map mem [0..<n])"

definition filled_buffer :: "char list \<Rightarrow> nat \<Rightarrow> char list" where
  \<comment> \<open>the content of the buffer, \<open>max_size\<close> bytes, after the vendor wrote \<open>written\<close>
      from its start on\<close>
  "filled_buffer written max_size = take max_size (written @ replicate max_size NUL)"

definition receive_frame ::
  "cxx_env \<Rightarrow> exanic_call vendor \<Rightarrow> interp \<Rightarrow> pyobj \<Rightarrow> nat \<Rightarrow> (py_exception + pyobj) \<times> interp" where
  "receive_frame E V w rx_cap max_size0 =
     (if \<not> PyCapsule_IsValid w rx_cap CAPSULE_EXANIC_RX
      then (Inl (RuntimeError ''invalid exanic_rx handle capsule''), w)
      else (case PyCapsule_GetPointer w rx_cap CAPSULE_EXANIC_RX of (rx, w1) \<Rightarrow>
        (let max_size = (if max_size0 = 0 then 2048 else max_size0)
         in (case string_ctor E max_size of
               Some e \<Rightarrow> (Inl e, w1)
             | None \<Rightarrow>
                 (let c = exanic_receive_frame rx max_size;
                      n = ret_int V (exanic_calls w1) c;
                      mem = memory_at_buffer (ret_bytes V (exanic_calls w1) c) max_size (beyond E);
                      w2 = exanic_do w1 c
                  in if n \<le> 0 then (Inr (PyBytes []), w2)
                     else (Inr (py_bytes mem (nat n)), w2))))))"

definition release_rx_buffer :: "interp \<Rightarrow> pyobj \<Rightarrow> (py_exception + pyobj) \<times> interp" where
  "release_rx_buffer w rx_cap =
     (if \<not> PyCapsule_IsValid w rx_cap CAPSULE_EXANIC_RX then (Inr PyNone, w)
      else (case PyCapsule_GetPointer w rx_cap CAPSULE_EXANIC_RX of (rx, w1) \<Rightarrow>
        (let w2 = exanic_do w1 (exanic_release_rx_buffer rx)
         in (case PyCapsule_SetPointer w2 rx_cap 0 of (rc, w3) \<Rightarrow> (Inr PyNone, w3)))))"

definition release_handle :: "interp \<Rightarrow> pyobj \<Rightarrow> (py_exception + pyobj) \<times> interp" where
  "release_handle w handle_cap =
     (if \<not> PyCapsule_IsValid w handle_cap CAPSULE_EXANIC then (Inr PyNone, w)
      else (case PyCapsule_GetPointer w handle_cap CAPSULE_EXANIC of (nic, w1) \<Rightarrow>
        (let w2 = exanic_do w1 (exanic_release_handle nic)
         in (case PyCapsule_SetPointer w2 handle_cap 0 of (rc, w3) \<Rightarrow> (Inr PyNone, w3)))))"

definition get_last_error :: "exanic_call vendor \<Rightarrow> interp \<Rightarrow> string \<times> interp" where
  "get_last_error V w =
     (case ret_str V (exanic_calls w) exanic_get_last_error of
        Some err \<Rightarrow> (err, exanic_do w exanic_get_last_error)
      | None \<Rightarrow> ([], exanic_do w exanic_get_last_error))"

text \<open>What the body of the loop of \<open>fill_reqs\<close> makes of one record.\<close>

definition fill_one ::
  "CHSNsqReqFutuDepthMarketDataField \<Rightarrow> string \<times> string \<Rightarrow> CHSNsqReqFutuDepthMarketDataField" where
  "fill_one r c =
     r\<lparr>ExchangeID := copy_cstr (ExchangeID r) (sizeof (ExchangeID r)) (fst c),
       InstrumentID := copy_cstr (InstrumentID r) (sizeof (InstrumentID r)) (snd c)\<rparr>"

section \<open>Sample inputs\<close>

text \<open>Concrete values at which the theorems below are instantiated.\<close>

definition sample_struct :: "nat cstruct" where
  \<comment> \<open>every char array has size 11 and no NUL, every numeric array holds six numbers\<close>
  "sample_struct =
     \<lparr>scalar = (\<lambda>m. 7), chars = (\<lambda>m. replicate 11 (CHR ''x'')),
      array = (\<lambda>m. [10, 20, 30, 40, 50, 60])\<rparr>"

definition sample_vendor :: "'c vendor" where
  "sample_vendor =
     \<lparr>ret_int = (\<lambda>calls c. 3), ret_ptr = (\<lambda>calls c. 4096),
      ret_str = (\<lambda>calls c. None), ret_bytes = (\<lambda>calls c. ''frame'')\<rparr>"

definition sample_header :: nsq_header where
  "sample_header = \<lparr>sizeof_ExchangeID = 5, sizeof_InstrumentID = 8\<rparr>"

definition empty_interp :: interp where
  "empty_interp = \<lparr>heap = [], exanic_calls = [], error_indicator = None\<rparr>"

definition sample_env :: cxx_env where
  \<comment> \<open>strings of up to \<open>2 ^ 62 - 1\<close> bytes can be constructed, longer ones give
      \<open>std::length_error\<close>, a \<open>ValueError\<close> in Python\<close>
  "sample_env =
     \<lparr>string_ctor = (\<lambda>n. if n \<le> 4611686018427387903 then None else Some ValueError),
      beyond = (\<lambda>i. CHR ''?'')\<rparr>"

definition overlong_vendor :: "'c vendor" where
  \<comment> \<open>a vendor that writes four bytes and returns the length 5\<close>
  "overlong_vendor =
     \<lparr>ret_int = (\<lambda>calls c. 5), ret_ptr = (\<lambda>calls c. 4096),
      ret_str = (\<lambda>calls c. None), ret_bytes = (\<lambda>calls c. ''fram'')\<rparr>"

definition rx_interp :: interp where
  \<comment> \<open>an interpreter whose object 0 is a valid RX capsule\<close>
  "rx_interp =
     \<lparr>heap = [Capsule 4096 ''exanic_rx_t''], exanic_calls = [], error_indicator = None\<rparr>"

definition nCount :: "nsq_call \<Rightarrow> int" where
  \<comment> \<open>the count argument of a subscribe call\<close>
  "nCount c = (case c of NsqApi_ReqFutuDepthMarketDataSubscribe h reqs n r \<Rightarrow> n | _ \<Rightarrow> 0)"

section \<open>C strings: copying into and reading from a char array\<close>

lemma c_string_c_str: "c_string (c_str v) = c_string v"
  by (induction v) (simp_all add: c_string_def c_str_def)

lemma NUL_notin_c_string: "NUL \<notin> set (c_string buf)"
  by (auto simp: c_string_def dest: set_takeWhileD)

lemma c_string_NUL_free: "NUL \<notin> set v \<Longrightarrow> c_string v = v"
  by (auto simp: c_string_def)

lemma c_string_append_NUL: "NUL \<notin> set xs \<Longrightarrow> c_string (xs @ NUL # ys) = xs"
  by (induction xs) (auto simp: c_string_def)

lemma length_strncpy: "n \<le> length dest \<Longrightarrow> length (strncpy dest src n) = length dest"
  by (simp add: strncpy_def Let_def)

lemma strncpy_short:
  assumes "length (c_string src) < n"
  shows "strncpy dest src n =
           c_string src @ NUL # replicate (n - length (c_string src) - 1) NUL @ drop n dest"
proof -
  from assms have "n - length (c_string src) = Suc (n - length (c_string src) - 1)" by simp
  then have "replicate (n - length (c_string src)) NUL
               = NUL # replicate (n - length (c_string src) - 1) NUL"
    by (metis replicate_Suc)
  with assms show ?thesis by (simp add: strncpy_def Let_def)
qed

lemma std_string_strncpy_short:
  assumes "length (c_string src) < n"
  shows "std_string (strncpy dest src n) = Inr (c_string src)"
proof -
  have "c_string (strncpy dest src n) = c_string src"
    unfolding strncpy_short [OF assms] by (rule c_string_append_NUL) (rule NUL_notin_c_string)
  moreover have "NUL \<in> set (strncpy dest src n)"
    unfolding strncpy_short [OF assms] by simp
  ultimately show ?thesis by (simp add: std_string_def)
qed

lemma copy_cstr_eq:
  assumes "0 < n" "length dest = n"
  shows "copy_cstr dest n v =
           take (n - 1) (c_string v) @ replicate (n - length (take (n - 1) (c_string v))) NUL"
proof -
  let ?body = "take (n - 1) (c_string v)"
  have len: "length ?body \<le> n - 1" by simp
  have "copy_cstr dest n v = ?body @ replicate (n - 1 - length ?body) NUL @ drop (n - 1) (replicate n NUL)"
    using assms by (simp add: copy_cstr_def strncpy_def memset0_def size_t_sub1_def Let_def c_string_c_str)
  also have "drop (n - 1) (replicate n NUL) = [NUL]" using assms by simp
  also have "replicate (n - 1 - length ?body) NUL @ [NUL] = replicate (n - length ?body) NUL"
  proof -
    have "n - length ?body = Suc (n - 1 - length ?body)" using assms len by linarith
    then show ?thesis by (metis replicate_Suc replicate_append_same)
  qed
  finally show ?thesis .
qed

lemma copy_cstr_props:
  assumes "0 < n" "length dest = n"
  shows "length (copy_cstr dest n v) = n"
    and "last (copy_cstr dest n v) = NUL"
    and "std_string (copy_cstr dest n v) = Inr (take (n - 1) (c_string v))"
proof -
  let ?body = "take (n - 1) (c_string v)"
  let ?k = "n - length ?body"
  have eq: "copy_cstr dest n v = ?body @ replicate ?k NUL" by (rule copy_cstr_eq [OF assms])
  have "length ?body \<le> n - 1" by simp
  with assms have k: "0 < ?k" by linarith
  then obtain k' where k': "?k = Suc k'" by (cases ?k) auto
  show "length (copy_cstr dest n v) = n" unfolding eq using assms by (simp add: min_def)
  show "last (copy_cstr dest n v) = NUL" unfolding eq k' by (simp add: replicate_append_same [symmetric] del: replicate_Suc)
  have nb: "NUL \<notin> set ?body" using NUL_notin_c_string by (meson in_set_takeD)
  have "c_string (?body @ replicate ?k NUL) = ?body"
    unfolding k' replicate_Suc by (rule c_string_append_NUL [OF nb])
  moreover have "NUL \<in> set (?body @ replicate ?k NUL)" unfolding k' replicate_Suc by simp
  ultimately show "std_string (copy_cstr dest n v) = Inr ?body"
    unfolding eq by (simp add: std_string_def)
qed

lemma find_rev_distinct:
  "distinct (map g bs) \<Longrightarrow> b \<in> set bs \<Longrightarrow> find (\<lambda>x. g x = g b) (rev bs) = Some b"
proof (induction bs rule: rev_induct)
  case Nil then show ?case by simp
next
  case (snoc x xs)
  show ?case
  proof (cases "b = x")
    case True then show ?thesis by simp
  next
    case False
    with snoc.prems have "b \<in> set xs" "g x \<noteq> g b" "distinct (map g xs)" by auto
    with snoc.IH show ?thesis by simp
  qed
qed

lemma lookup_binding_distinct:
  "distinct (map binding_name bs) \<Longrightarrow> b \<in> set bs \<Longrightarrow> lookup_binding bs (binding_name b) = Some b"
  unfolding lookup_binding_def by (rule find_rev_distinct)

section \<open>The attribute tables\<close>

lemma distinct_names:
  "bs \<in> set bound_structs \<Longrightarrow> distinct (map binding_name bs)"
  by (auto simp: bound_structs_def CThostFtdcRspInfoField_def CThostFtdcRspUserLoginField_def
      CThostFtdcReqUserLoginField_def CThostFtdcDepthMarketDataField_def
      CThostFtdcSpecificInstrumentField_def CHSNsqRspInfoField_def CHSNsqReqUserLoginField_def
      CHSNsqRspUserLoginField_def CHSNsqFutuDepthMarketDataField_def)

lemma member_is_name:
  "bs \<in> set bound_structs \<Longrightarrow> b \<in> set bs \<Longrightarrow> member b = binding_name b"
  by (auto simp: bound_structs_def CThostFtdcRspInfoField_def CThostFtdcRspUserLoginField_def
      CThostFtdcReqUserLoginField_def CThostFtdcDepthMarketDataField_def
      CThostFtdcSpecificInstrumentField_def CHSNsqRspInfoField_def CHSNsqReqUserLoginField_def
      CHSNsqRspUserLoginField_def CHSNsqFutuDepthMarketDataField_def)

lemma vector5_loop_eq:
  "5 \<le> length arr \<Longrightarrow> i \<le> 5 \<Longrightarrow>
     vector5_loop to_double arr i v = Inr (v @ map to_double (drop i (take 5 arr)))"
proof (induction to_double arr i v rule: vector5_loop.induct)
  case (1 to_double arr i v)
  show ?case
  proof (cases "i < 5")
    case True
    with "1.prems" have lt: "i < length arr" by simp
    from True "1.prems" have "i < length (take 5 arr)" by simp
    then have "drop i (take 5 arr) = take 5 arr ! i # drop (Suc i) (take 5 arr)"
      by (rule Cons_nth_drop_Suc [symmetric])
    with True have "drop i (take 5 arr) = arr ! i # drop (i + 1) (take 5 arr)" by simp
    moreover from True lt "1.prems"
    have "vector5_loop to_double arr (i + 1) (v @ [to_double (arr ! i)])
            = Inr ((v @ [to_double (arr ! i)]) @ map to_double (drop (i + 1) (take 5 arr)))"
      by (intro "1.IH") simp_all
    ultimately show ?thesis
      using True lt by (subst vector5_loop.simps) simp
  next
    case False
    with "1.prems" have "i = 5" by simp
    then show ?thesis by (subst vector5_loop.simps) simp
  qed
qed

lemma vector5_loop_short:
  "length arr < 5 \<Longrightarrow> i \<le> length arr \<Longrightarrow> vector5_loop to_double arr i v = Inl BufferOverrun"
proof (induction to_double arr i v rule: vector5_loop.induct)
  case (1 to_double arr i v)
  show ?case
  proof (cases "i < length arr")
    case True
    with "1.prems" have "i < 5" by simp
    with True "1.prems" "1.IH" show ?thesis by (subst vector5_loop.simps) simp
  next
    case False
    with "1.prems" show ?thesis by (subst vector5_loop.simps) simp
  qed
qed

lemma getter_scalar:
  "is_scalar_binding b \<Longrightarrow> getter to_double b f = Inr (Num (scalar f (member b)))"
  by (cases b) simp_all

lemma getter_string:
  "is_string_binding b \<Longrightarrow> getter to_double b f = map_sum id Str (std_string (chars f (member b)))"
  by (cases b) simp_all

lemma getter_vector:
  "is_vector_binding b \<Longrightarrow>
     getter to_double b f = map_sum id Vec (vector5_loop to_double (array f (member b)) 0 [])"
  by (cases b) simp_all

lemma py_getattr_bound:
  assumes "bs \<in> set bound_structs" "b \<in> set bs"
  shows "py_getattr to_double bs (binding_name b) f = (getter to_double b f, f)"
  using lookup_binding_distinct [OF distinct_names [OF assms(1)] assms(2)]
  by (simp add: py_getattr_def)

text \<open>
  C8. Every attribute declared on a bound struct reads the struct member of the same
  name: a \<open>def_readonly\<close> attribute returns the current value of the member, a
  string attribute of a char array that holds a NUL returns the bytes before the first
  NUL, a vector attribute of an array of at least five entries returns its first five
  entries (each converted to \<open>double\<close>), and the struct after the read is the struct
  before it. Every attribute is of one of these three kinds.
\<close>

theorem accessors_return_fields:
  assumes "bs \<in> set bound_structs" and "b \<in> set bs"
  shows "member b = binding_name b
       \<and> snd (py_getattr to_double bs (binding_name b) f) = f
       \<and> (is_scalar_binding b \<longrightarrow>
            fst (py_getattr to_double bs (binding_name b) f) = Inr (Num (scalar f (binding_name b))))
       \<and> (is_string_binding b \<and> NUL \<in> set (chars f (binding_name b)) \<longrightarrow>
            fst (py_getattr to_double bs (binding_name b) f)
              = Inr (Str (takeWhile (\<lambda>c. c \<noteq> NUL) (chars f (binding_name b)))))
       \<and> (is_vector_binding b \<and> 5 \<le> length (array f (binding_name b)) \<longrightarrow>
            fst (py_getattr to_double bs (binding_name b) f)
              = Inr (Vec (map to_double (take 5 (array f (binding_name b))))))
       \<and> (is_scalar_binding b \<or> is_string_binding b \<or> is_vector_binding b)"
proof -
  have m: "member b = binding_name b" by (rule member_is_name [OF assms])
  have g: "py_getattr to_double bs (binding_name b) f = (getter to_double b f, f)"
    by (rule py_getattr_bound [OF assms])
  have k: "is_scalar_binding b \<or> is_string_binding b \<or> is_vector_binding b"
    by (cases b) simp_all
  have v: "is_vector_binding b \<and> 5 \<le> length (array f (binding_name b)) \<longrightarrow>
            fst (py_getattr to_double bs (binding_name b) f)
              = Inr (Vec (map to_double (take 5 (array f (binding_name b)))))"
    by (simp add: m g getter_vector [where b = b] vector5_loop_eq)
  have r: "member b = binding_name b
       \<and> snd (py_getattr to_double bs (binding_name b) f) = f
       \<and> (is_scalar_binding b \<longrightarrow>
            fst (py_getattr to_double bs (binding_name b) f) = Inr (Num (scalar f (binding_name b))))
       \<and> (is_string_binding b \<and> NUL \<in> set (chars f (binding_name b)) \<longrightarrow>
            fst (py_getattr to_double bs (binding_name b) f)
              = Inr (Str (takeWhile (\<lambda>c. c \<noteq> NUL) (chars f (binding_name b)))))"
    by (simp add: m g getter_scalar getter_string [where b = b] std_string_def c_string_def)
  from r v k show ?thesis by blast
qed

theorem accessors_return_fields_witness:
  "CThostFtdcRspInfoField \<in> set bound_structs
   \<and> def_readonly ''ErrorID'' ''ErrorID'' \<in> set CThostFtdcRspInfoField
   \<and> def_property_readonly_string ''ErrorMsg'' ''ErrorMsg'' \<in> set CThostFtdcRspInfoField
   \<and> NUL \<in> set (chars (sample_struct\<lparr>chars := (\<lambda>m. ''CTP:ok'' @ [NUL, CHR ''z''])\<rparr>) ''ErrorMsg'')
   \<and> py_getattr id CThostFtdcRspInfoField ''ErrorID'' sample_struct = (Inr (Num 7), sample_struct)
   \<and> fst (py_getattr id CThostFtdcRspInfoField ''ErrorMsg''
            (sample_struct\<lparr>chars := (\<lambda>m. ''CTP:ok'' @ [NUL, CHR ''z''])\<rparr>)) = Inr (Str ''CTP:ok'')
   \<and> CHSNsqFutuDepthMarketDataField \<in> set bound_structs
   \<and> def_property_readonly_vector5 ''AskVolume'' ''AskVolume''
        \<in> set CHSNsqFutuDepthMarketDataField
   \<and> 5 \<le> length (array sample_struct ''AskVolume'')
   \<and> py_getattr id CHSNsqFutuDepthMarketDataField ''AskVolume'' sample_struct
        = (Inr (Vec [10, 20, 30, 40, 50]), sample_struct)"
proof -
  let ?f = "sample_struct\<lparr>chars := (\<lambda>m. ''CTP:ok'' @ [NUL, CHR ''z''])\<rparr>"
  have a: "CThostFtdcRspInfoField \<in> set bound_structs" by (simp add: bound_structs_def)
  have b1: "def_readonly ''ErrorID'' ''ErrorID'' \<in> set CThostFtdcRspInfoField"
    by (simp add: CThostFtdcRspInfoField_def)
  have b2: "def_property_readonly_string ''ErrorMsg'' ''ErrorMsg'' \<in> set CThostFtdcRspInfoField"
    by (simp add: CThostFtdcRspInfoField_def)
  have n: "NUL \<in> set (chars ?f ''ErrorMsg'')" by simp
  have s7: "scalar sample_struct ''ErrorID'' = 7" by (simp add: sample_struct_def)
  from accessors_return_fields [OF a b1, of id sample_struct]
  have r1: "py_getattr id CThostFtdcRspInfoField ''ErrorID'' sample_struct = (Inr (Num 7), sample_struct)"
    by (simp add: s7 prod_eq_iff)
  from accessors_return_fields [OF a b2, of id ?f] n
  have r2: "fst (py_getattr id CThostFtdcRspInfoField ''ErrorMsg'' ?f) = Inr (Str ''CTP:ok'')"
    by (simp add: NUL_def)
  have c: "CHSNsqFutuDepthMarketDataField \<in> set bound_structs" by (simp add: bound_structs_def)
  have b3: "def_property_readonly_vector5 ''AskVolume'' ''AskVolume''
              \<in> set CHSNsqFutuDepthMarketDataField"
    by (simp add: CHSNsqFutuDepthMarketDataField_def)
  have l: "5 \<le> length (array sample_struct ''AskVolume'')" by (simp add: sample_struct_def)
  have t: "take 5 (array sample_struct ''AskVolume'') = [10, 20, 30, 40, 50]"
    by (simp add: sample_struct_def eval_nat_numeral)
  from accessors_return_fields [OF c b3, of id sample_struct] l
  have r3: "py_getattr id CHSNsqFutuDepthMarketDataField ''AskVolume'' sample_struct
        = (Inr (Vec [10, 20, 30, 40, 50]), sample_struct)"
    by (simp add: t prod_eq_iff)
  from a b1 b2 n r1 r2 c b3 l r3 show ?thesis by blast
qed

lemma depth_vector_names:
  "map binding_name (filter is_vector_binding CHSNsqFutuDepthMarketDataField)
     = [''BidPrice'', ''BidVolume'', ''AskPrice'', ''AskVolume'']"
  by (simp add: CHSNsqFutuDepthMarketDataField_def)

text \<open>
  C10. On a \<open>CHSNsqFutuDepthMarketDataField\<close> each of the vector attributes (they are
  \<open>BidPrice\<close>, \<open>BidVolume\<close>, \<open>AskPrice\<close> and \<open>AskVolume\<close>, see
  \<open>depth_vector_names\<close>) returns a vector of exactly five elements, the first five
  entries of the member array of the same name, each converted to \<open>double\<close>; the
  vendor array is declared with at least five entries.
\<close>

theorem depth_vectors_have_five:
  assumes "b \<in> set CHSNsqFutuDepthMarketDataField" and "is_vector_binding b"
      and "5 \<le> length (array f (binding_name b))"
  shows "\<exists>v. py_getattr to_double CHSNsqFutuDepthMarketDataField (binding_name b) f = (Inr (Vec v), f)
           \<and> length v = 5
           \<and> (\<forall>i<5. v ! i = to_double (array f (binding_name b) ! i))"
proof -
  have bs: "CHSNsqFutuDepthMarketDataField \<in> set bound_structs" by (simp add: bound_structs_def)
  have m: "member b = binding_name b" by (rule member_is_name [OF bs assms(1)])
  have "py_getattr to_double CHSNsqFutuDepthMarketDataField (binding_name b) f
          = (Inr (Vec (map to_double (take 5 (array f (binding_name b))))), f)"
    using assms(3)
    by (simp add: py_getattr_bound [OF bs assms(1)] getter_vector [OF assms(2)] m vector5_loop_eq)
  moreover have "length (map to_double (take 5 (array f (binding_name b)))) = 5"
    using assms(3) by simp
  moreover have "\<forall>i<5. map to_double (take 5 (array f (binding_name b))) ! i
                      = to_double (array f (binding_name b) ! i)"
    using assms(3) by simp
  ultimately show ?thesis by blast
qed

section \<open>String attributes: set, then get\<close>

theorem depth_vectors_have_five_witness:
  "def_property_readonly_vector5 ''BidPrice'' ''BidPrice'' \<in> set CHSNsqFutuDepthMarketDataField
   \<and> is_vector_binding (def_property_readonly_vector5 ''BidPrice'' ''BidPrice'')
   \<and> 5 \<le> length (array sample_struct ''BidPrice'')
   \<and> py_getattr int CHSNsqFutuDepthMarketDataField ''BidPrice'' sample_struct
        = (Inr (Vec [10, 20, 30, 40, 50]), sample_struct)"
proof -
  let ?b = "def_property_readonly_vector5 ''BidPrice'' ''BidPrice''"
  have a: "?b \<in> set CHSNsqFutuDepthMarketDataField"
    by (simp add: CHSNsqFutuDepthMarketDataField_def)
  have v: "is_vector_binding ?b" by simp
  have l: "5 \<le> length (array sample_struct (binding_name ?b))" by (simp add: sample_struct_def)
  from depth_vectors_have_five [OF a v l, of int]
  obtain v where g: "py_getattr int CHSNsqFutuDepthMarketDataField ''BidPrice'' sample_struct
                       = (Inr (Vec v), sample_struct)"
    and len: "length v = 5"
    and el: "\<forall>i<5. v ! i = int (array sample_struct ''BidPrice'' ! i)"
    by auto
  have "v = [10, 20, 30, 40, 50]"
  proof (rule nth_equalityI)
    show "length v = length [10, 20, 30, 40, 50::int]" using len by simp
  next
    fix i assume "i < length v"
    with len have "i < 5" by simp
    then consider "i = 0" | "i = 1" | "i = 2" | "i = 3" | "i = 4" by linarith
    then show "v ! i = [10, 20, 30, 40, 50] ! i"
      using el by cases (simp_all add: sample_struct_def)
  qed
  with g a v l show ?thesis by simp
qed

lemma py_setattr_bound:
  assumes "bs \<in> set bound_structs" "b \<in> set bs"
  shows "py_setattr bs (binding_name b) v f =
           (case setter b f v of Inl e \<Rightarrow> (Inl e, f) | Inr f' \<Rightarrow> (Inr (), f'))"
  using lookup_binding_distinct [OF distinct_names [OF assms(1)] assms(2)]
  by (simp add: py_setattr_def)

lemma copy_cstr_setter:
  assumes "b \<in> set CHSNsqReqUserLoginField"
  shows "py_setattr CHSNsqReqUserLoginField (binding_name b) v f =
           (Inr (), f\<lparr>chars := (chars f)(binding_name b :=
              copy_cstr (chars f (binding_name b)) (sizeof (chars f (binding_name b))) v)\<rparr>)"
proof -
  have bs: "CHSNsqReqUserLoginField \<in> set bound_structs" by (simp add: bound_structs_def)
  from assms have "setter b f v = Inr (f\<lparr>chars := (chars f)(binding_name b :=
              copy_cstr (chars f (binding_name b)) (sizeof (chars f (binding_name b))) v)\<rparr>)"
    by (auto simp: CHSNsqReqUserLoginField_def)
  then show ?thesis by (simp add: py_setattr_bound [OF bs assms])
qed

lemma strncpy_setter:
  assumes "b \<in> set CThostFtdcReqUserLoginField"
  shows "py_setattr CThostFtdcReqUserLoginField (binding_name b) v f =
           (Inr (), f\<lparr>chars := (chars f)(binding_name b :=
              strncpy (chars f (binding_name b)) (c_str v) (sizeof (chars f (binding_name b))))\<rparr>)"
proof -
  have bs: "CThostFtdcReqUserLoginField \<in> set bound_structs" by (simp add: bound_structs_def)
  from assms have "setter b f v = Inr (f\<lparr>chars := (chars f)(binding_name b :=
              strncpy (chars f (binding_name b)) (c_str v) (sizeof (chars f (binding_name b))))\<rparr>)"
    by (auto simp: CThostFtdcReqUserLoginField_def)
  then show ?thesis by (simp add: py_setattr_bound [OF bs assms])
qed

lemma string_getter:
  assumes "bs \<in> set bound_structs" "b \<in> set bs" "is_string_binding b"
  shows "fst (py_getattr to_double bs (binding_name b) f)
           = map_sum id Str (std_string (chars f (binding_name b)))"
  by (simp add: py_getattr_bound [OF assms(1,2)] getter_string [OF assms(3)]
      member_is_name [OF assms(1,2)])

lemma nsq_set_get:
  assumes "b \<in> set CHSNsqReqUserLoginField" and "0 < sizeof (chars f (binding_name b))"
  shows "fst (py_setattr CHSNsqReqUserLoginField (binding_name b) v f) = Inr ()"
    and "fst (py_getattr to_double CHSNsqReqUserLoginField (binding_name b)
               (snd (py_setattr CHSNsqReqUserLoginField (binding_name b) v f)))
           = Inr (Str (take (sizeof (chars f (binding_name b)) - 1) (c_string v)))"
    and "sizeof (chars (snd (py_setattr CHSNsqReqUserLoginField (binding_name b) v f)) (binding_name b))
           = sizeof (chars f (binding_name b))"
    and "last (chars (snd (py_setattr CHSNsqReqUserLoginField (binding_name b) v f)) (binding_name b))
           = NUL"
proof -
  have bs: "CHSNsqReqUserLoginField \<in> set bound_structs" by (simp add: bound_structs_def)
  have st: "is_string_binding b" using assms(1) by (auto simp: CHSNsqReqUserLoginField_def)
  let ?n = "sizeof (chars f (binding_name b))"
  have n: "0 < ?n" "length (chars f (binding_name b)) = ?n" using assms(2) by (simp_all add: sizeof_def)
  note p = copy_cstr_props [OF n]
  show "fst (py_setattr CHSNsqReqUserLoginField (binding_name b) v f) = Inr ()"
    by (simp add: copy_cstr_setter [OF assms(1)])
  show "fst (py_getattr to_double CHSNsqReqUserLoginField (binding_name b)
               (snd (py_setattr CHSNsqReqUserLoginField (binding_name b) v f)))
           = Inr (Str (take (?n - 1) (c_string v)))"
    by (simp add: copy_cstr_setter [OF assms(1)] string_getter [OF bs assms(1) st] p)
  show "sizeof (chars (snd (py_setattr CHSNsqReqUserLoginField (binding_name b) v f)) (binding_name b)) = ?n"
    using p(1) by (simp add: copy_cstr_setter [OF assms(1)] sizeof_def)
  show "last (chars (snd (py_setattr CHSNsqReqUserLoginField (binding_name b) v f)) (binding_name b)) = NUL"
    by (simp add: copy_cstr_setter [OF assms(1)] p)
qed

lemma ctp_set_get:
  assumes "b \<in> set CThostFtdcReqUserLoginField"
      and "length (c_string v) < sizeof (chars f (binding_name b))"
  shows "fst (py_setattr CThostFtdcReqUserLoginField (binding_name b) v f) = Inr ()"
    and "fst (py_getattr to_double CThostFtdcReqUserLoginField (binding_name b)
               (snd (py_setattr CThostFtdcReqUserLoginField (binding_name b) v f)))
           = Inr (Str (c_string v))"
    and "sizeof (chars (snd (py_setattr CThostFtdcReqUserLoginField (binding_name b) v f)) (binding_name b))
           = sizeof (chars f (binding_name b))"
    and "last (chars (snd (py_setattr CThostFtdcReqUserLoginField (binding_name b) v f)) (binding_name b))
           = NUL"
proof -
  have bs: "CThostFtdcReqUserLoginField \<in> set bound_structs" by (simp add: bound_structs_def)
  have st: "is_string_binding b" using assms(1) by (auto simp: CThostFtdcReqUserLoginField_def)
  let ?arr = "chars f (binding_name b)"
  let ?n = "sizeof ?arr"
  have lt: "length (c_string (c_str v)) < ?n" using assms(2) by (simp add: c_string_c_str)
  have nl: "?n = length ?arr" by (simp add: sizeof_def)
  show "fst (py_setattr CThostFtdcReqUserLoginField (binding_name b) v f) = Inr ()"
    by (simp add: strncpy_setter [OF assms(1)])
  show "fst (py_getattr to_double CThostFtdcReqUserLoginField (binding_name b)
               (snd (py_setattr CThostFtdcReqUserLoginField (binding_name b) v f)))
           = Inr (Str (c_string v))"
    by (simp add: strncpy_setter [OF assms(1)] string_getter [OF bs assms(1) st]
        std_string_strncpy_short [OF lt] c_string_c_str)
  show "sizeof (chars (snd (py_setattr CThostFtdcReqUserLoginField (binding_name b) v f)) (binding_name b)) = ?n"
    by (simp add: strncpy_setter [OF assms(1)] sizeof_def length_strncpy)
  have "strncpy ?arr (c_str v) ?n
          = c_string (c_str v) @ NUL # replicate (?n - length (c_string (c_str v)) - 1) NUL @ []"
    using strncpy_short [OF lt, of ?arr] by (simp add: sizeof_def)
  then have "last (strncpy ?arr (c_str v) ?n) = NUL"
    by (simp add: replicate_append_same [symmetric] del: replicate_Suc)
  then show "last (chars (snd (py_setattr CThostFtdcReqUserLoginField (binding_name b) v f)) (binding_name b)) = NUL"
    by (simp add: strncpy_setter [OF assms(1)])
qed


text \<open>
  C3, as amended. For the two string attributes of \<open>CHSNsqReqUserLoginField\<close>
  (\<open>AccountID\<close>, \<open>Password\<close>, set through \<open>copy_cstr\<close>) and every string
  \<open>v\<close>: setting the attribute and reading it back yields the C string of \<open>v\<close>
  (its bytes before the first NUL byte) cut to the size of the array less one, and the
  array keeps its size and ends in NUL. For the three string attributes of
  \<open>CThostFtdcReqUserLoginField\<close> (\<open>BrokerID\<close>, \<open>UserID\<close>, \<open>Password\<close>, set
  through \<open>strncpy\<close> with the full size of the array): when the C string of \<open>v\<close>
  is strictly shorter than the array, reading back yields that C string and the array
  ends in NUL. A string without NUL bytes is its own C string, so in both cases
  set-then-get is the identity on a string without NUL bytes that is strictly shorter
  than the array.
\<close>

theorem setters_then_getters:
  "(b \<in> set CHSNsqReqUserLoginField \<and> 0 < sizeof (chars f (binding_name b)) \<longrightarrow>
      fst (py_setattr CHSNsqReqUserLoginField (binding_name b) v f) = Inr ()
    \<and> fst (py_getattr to_double CHSNsqReqUserLoginField (binding_name b)
             (snd (py_setattr CHSNsqReqUserLoginField (binding_name b) v f)))
        = Inr (Str (take (sizeof (chars f (binding_name b)) - 1) (c_string v)))
    \<and> sizeof (chars (snd (py_setattr CHSNsqReqUserLoginField (binding_name b) v f)) (binding_name b))
        = sizeof (chars f (binding_name b))
    \<and> last (chars (snd (py_setattr CHSNsqReqUserLoginField (binding_name b) v f)) (binding_name b))
        = NUL)
 \<and> (b \<in> set CThostFtdcReqUserLoginField \<and> length (c_string v) < sizeof (chars f (binding_name b)) \<longrightarrow>
      fst (py_setattr CThostFtdcReqUserLoginField (binding_name b) v f) = Inr ()
    \<and> fst (py_getattr to_double CThostFtdcReqUserLoginField (binding_name b)
             (snd (py_setattr CThostFtdcReqUserLoginField (binding_name b) v f)))
        = Inr (Str (c_string v))
    \<and> sizeof (chars (snd (py_setattr CThostFtdcReqUserLoginField (binding_name b) v f)) (binding_name b))
        = sizeof (chars f (binding_name b))
    \<and> last (chars (snd (py_setattr CThostFtdcReqUserLoginField (binding_name b) v f)) (binding_name b))
        = NUL)
 \<and> (NUL \<notin> set v \<longrightarrow> c_string v = v)"
  by (simp add: nsq_set_get ctp_set_get c_string_NUL_free)

theorem setters_then_getters_witness:
  "def_property_copy_cstr ''AccountID'' ''AccountID'' \<in> set CHSNsqReqUserLoginField
   \<and> 0 < sizeof (chars sample_struct ''AccountID'')
   \<and> fst (py_getattr id CHSNsqReqUserLoginField ''AccountID''
            (snd (py_setattr CHSNsqReqUserLoginField ''AccountID'' ''0123456789abcdef'' sample_struct)))
       = Inr (Str ''0123456789'')
   \<and> def_property_strncpy ''UserID'' ''UserID'' \<in> set CThostFtdcReqUserLoginField
   \<and> length (c_string ''trader01'') < sizeof (chars sample_struct ''UserID'')
   \<and> NUL \<notin> set ''trader01''
   \<and> fst (py_getattr id CThostFtdcReqUserLoginField ''UserID''
            (snd (py_setattr CThostFtdcReqUserLoginField ''UserID'' ''trader01'' sample_struct)))
       = Inr (Str ''trader01'')"
proof -
  have a1: "def_property_copy_cstr ''AccountID'' ''AccountID'' \<in> set CHSNsqReqUserLoginField"
    by (simp add: CHSNsqReqUserLoginField_def)
  have a2: "0 < sizeof (chars sample_struct ''AccountID'')"
    by (simp add: sizeof_def sample_struct_def)
  have a3: "def_property_strncpy ''UserID'' ''UserID'' \<in> set CThostFtdcReqUserLoginField"
    by (simp add: CThostFtdcReqUserLoginField_def)
  have a4: "length (c_string ''trader01'') < sizeof (chars sample_struct ''UserID'')"
    by (simp add: sizeof_def sample_struct_def c_string_def NUL_def)
  have a5: "NUL \<notin> set ''trader01''" by (simp add: NUL_def)
  have t: "take (sizeof (chars sample_struct ''AccountID'') - 1) (c_string ''0123456789abcdef'')
             = ''0123456789''"
    by (simp add: sizeof_def sample_struct_def c_string_def NUL_def)
  from setters_then_getters [of "def_property_copy_cstr ''AccountID'' ''AccountID''" sample_struct
      "''0123456789abcdef''" id] a1 a2
  have r1: "fst (py_getattr id CHSNsqReqUserLoginField ''AccountID''
            (snd (py_setattr CHSNsqReqUserLoginField ''AccountID'' ''0123456789abcdef'' sample_struct)))
       = Inr (Str ''0123456789'')"
    unfolding t [symmetric] by simp
  from setters_then_getters [of "def_property_strncpy ''UserID'' ''UserID''" sample_struct
      "''trader01''" id] a3 a4 a5
  have r2: "fst (py_getattr id CThostFtdcReqUserLoginField ''UserID''
            (snd (py_setattr CThostFtdcReqUserLoginField ''UserID'' ''trader01'' sample_struct)))
       = Inr (Str ''trader01'')"
    by simp
  from a1 a2 a3 a4 a5 r1 r2 show ?thesis by blast
qed

text \<open>
  Where set-then-get is not the identity, on arrays of 11 bytes. A string of three bytes
  with a NUL byte in the middle, set through \<open>copy_cstr\<close>, reads back as its first
  byte. A string of 11 bytes without NUL, set through \<open>strncpy\<close> with the full size,
  fills the array and leaves it without a terminator, and the read runs past the array.
\<close>

theorem setters_then_getters_counterexample:
  "length [CHR ''a'', NUL, CHR ''b''] < sizeof (chars sample_struct ''AccountID'')
   \<and> fst (py_getattr id CHSNsqReqUserLoginField ''AccountID''
            (snd (py_setattr CHSNsqReqUserLoginField ''AccountID'' [CHR ''a'', NUL, CHR ''b'']
                   sample_struct)))
       = Inr (Str ''a'')
   \<and> sizeof (chars sample_struct ''BrokerID'') = 11
   \<and> chars (snd (py_setattr CThostFtdcReqUserLoginField ''BrokerID'' ''12345678901'' sample_struct))
         ''BrokerID'' = ''12345678901''
   \<and> NUL \<notin> set (chars (snd (py_setattr CThostFtdcReqUserLoginField ''BrokerID'' ''12345678901''
                                sample_struct)) ''BrokerID'')
   \<and> fst (py_getattr id CThostFtdcReqUserLoginField ''BrokerID''
            (snd (py_setattr CThostFtdcReqUserLoginField ''BrokerID'' ''12345678901'' sample_struct)))
       = Inl BufferOverrun"
  by (simp add: py_getattr_def py_setattr_def lookup_binding_def CHSNsqReqUserLoginField_def
      CThostFtdcReqUserLoginField_def sample_struct_def sizeof_def copy_cstr_def strncpy_def
      memset0_def size_t_sub1_def c_str_def c_string_def std_string_def NUL_def Let_def)

section \<open>Subscriptions\<close>

lemma push_symbols_eq: "push_symbols symbols p_symbols = p_symbols @ map c_str symbols"
  by (induction symbols arbitrary: p_symbols) simp_all

lemma int_of_size_t_small: "n < 2 ^ 31 \<Longrightarrow> int_of_size_t n = int n"
proof -
  assume "n < 2 ^ 31"
  then have "int n < 2 ^ 31" by (metis of_nat_less_iff of_nat_numeral of_nat_power)
  then have "(int n + 2 ^ 31) mod 2 ^ 32 = int n + 2 ^ 31" by simp
  then show ?thesis by (simp add: int_of_size_t_def)
qed

lemma int_of_size_t_wraps: "int_of_size_t 2147483648 = - 2147483648"
  by (simp add: int_of_size_t_def)

lemma fill_reqs_nth:
  "length reqs = length contracts \<Longrightarrow>
     length (fill_reqs contracts i reqs) = length reqs
   \<and> (\<forall>j < length reqs. fill_reqs contracts i reqs ! j
         = (if i \<le> j then fill_one (reqs ! j) (contracts ! j) else reqs ! j))"
proof (induction contracts i reqs rule: fill_reqs.induct)
  case (1 contracts i reqs)
  show ?case
  proof (cases "i < length contracts")
    case False
    with "1.prems" show ?thesis by (subst (1 2) fill_reqs.simps) simp
  next
    case True
    let ?reqs' = "reqs[i := fill_one (reqs ! i) (contracts ! i)]"
    have step: "fill_reqs contracts i reqs = fill_reqs contracts (i + 1) ?reqs'"
      using True by (subst fill_reqs.simps) (simp add: fill_one_def)
    have len: "length ?reqs' = length contracts" using "1.prems" by simp
    from "1.IH" [OF True] len
    have ih: "length (fill_reqs contracts (i + 1) ?reqs') = length ?reqs'
        \<and> (\<forall>j < length ?reqs'. fill_reqs contracts (i + 1) ?reqs' ! j
              = (if i + 1 \<le> j then fill_one (?reqs' ! j) (contracts ! j) else ?reqs' ! j))"
      by (simp add: fill_one_def)
    show ?thesis
    proof (intro conjI allI impI)
      show "length (fill_reqs contracts i reqs) = length reqs" using ih step by simp
    next
      fix j assume j: "j < length reqs"
      then have "fill_reqs contracts i reqs ! j
                   = (if i + 1 \<le> j then fill_one (?reqs' ! j) (contracts ! j) else ?reqs' ! j)"
        using ih step by simp
      also have "\<dots> = (if i \<le> j then fill_one (reqs ! j) (contracts ! j) else reqs ! j)"
        using j by (cases "i = j") auto
      finally show "fill_reqs contracts i reqs ! j
                   = (if i \<le> j then fill_one (reqs ! j) (contracts ! j) else reqs ! j)" .
    qed
  qed
qed

lemma length_fill_reqs:
  "length (fill_reqs contracts 0 (replicate (length contracts) r)) = length contracts"
  using fill_reqs_nth [of "replicate (length contracts) r" contracts 0] by simp

lemma fill_reqs_eq_map:
  "fill_reqs contracts 0 (replicate (length contracts) r) = map (fill_one r) contracts"
proof (rule nth_equalityI)
  show "length (fill_reqs contracts 0 (replicate (length contracts) r))
          = length (map (fill_one r) contracts)"
    by (simp add: length_fill_reqs)
next
  fix j assume "j < length (fill_reqs contracts 0 (replicate (length contracts) r))"
  then have j: "j < length contracts" by (simp add: length_fill_reqs)
  with fill_reqs_nth [of "replicate (length contracts) r" contracts 0]
  show "fill_reqs contracts 0 (replicate (length contracts) r) ! j = map (fill_one r) contracts ! j"
    by simp
qed

lemma fill_one_zero_req:
  "fill_one (zero_req H) c =
     \<lparr>ExchangeID = copy_cstr (replicate (sizeof_ExchangeID H) NUL) (sizeof_ExchangeID H) (fst c),
      InstrumentID = copy_cstr (replicate (sizeof_InstrumentID H) NUL) (sizeof_InstrumentID H) (snd c)\<rparr>"
  by (simp add: fill_one_def zero_req_def sizeof_def)

text \<open>
  C4, as amended. For a list of fewer than \<open>2 ^ 31\<close> requested instruments the
  subscribe operations pass one vendor entry per instrument, in order, and a count equal
  to the length of the list: \<open>PyMdApi::SubscribeMarketData\<close> passes the C-string
  pointer of each symbol, and \<open>PyNsqApi::ReqFutuDepthMarketDataSubscribe\<close> passes one
  request record per pair, with the first component copied by \<open>copy_cstr\<close> into
  \<open>ExchangeID\<close> and the second into \<open>InstrumentID\<close>. (The count is an \<open>int\<close>:
  from \<open>2 ^ 31\<close> entries on it is no longer the length.)
\<close>

theorem subscribe_one_entry_each:
  "(api s \<noteq> 0 \<and> length symbols < 2 ^ 31 \<longrightarrow>
      PyMdApi_SubscribeMarketData V s symbols =
        (ret_int V (ctp_calls s)
           (MdApi_SubscribeMarketData (api s) (map c_str symbols) (int (length symbols))),
         s\<lparr>ctp_calls := ctp_calls s @
             [MdApi_SubscribeMarketData (api s) (map c_str symbols) (int (length symbols))]\<rparr>))
 \<and> (nsq_api t \<noteq> 0 \<and> length contracts < 2 ^ 31 \<longrightarrow>
      PyNsqApi_ReqFutuDepthMarketDataSubscribe H W t contracts request_id =
        (ret_int W (nsq_calls t)
           (NsqApi_ReqFutuDepthMarketDataSubscribe (nsq_api t)
              (map (\<lambda>c. \<lparr>ExchangeID = copy_cstr (replicate (sizeof_ExchangeID H) NUL)
                                       (sizeof_ExchangeID H) (fst c),
                         InstrumentID = copy_cstr (replicate (sizeof_InstrumentID H) NUL)
                                         (sizeof_InstrumentID H) (snd c)\<rparr>) contracts)
              (int (length contracts)) request_id),
         t\<lparr>nsq_calls := nsq_calls t @
             [NsqApi_ReqFutuDepthMarketDataSubscribe (nsq_api t)
                (map (\<lambda>c. \<lparr>ExchangeID = copy_cstr (replicate (sizeof_ExchangeID H) NUL)
                                         (sizeof_ExchangeID H) (fst c),
                           InstrumentID = copy_cstr (replicate (sizeof_InstrumentID H) NUL)
                                           (sizeof_InstrumentID H) (snd c)\<rparr>) contracts)
                (int (length contracts)) request_id]\<rparr>))"
proof (intro conjI impI)
  assume "api s \<noteq> 0 \<and> length symbols < 2 ^ 31"
  then show "PyMdApi_SubscribeMarketData V s symbols =
        (ret_int V (ctp_calls s)
           (MdApi_SubscribeMarketData (api s) (map c_str symbols) (int (length symbols))),
         s\<lparr>ctp_calls := ctp_calls s @
             [MdApi_SubscribeMarketData (api s) (map c_str symbols) (int (length symbols))]\<rparr>)"
    by (simp add: PyMdApi_SubscribeMarketData_def push_symbols_eq int_of_size_t_small
        ctp_int_def ctp_do_def Let_def)
next
  let ?mk = "\<lambda>c. \<lparr>ExchangeID = copy_cstr (replicate (sizeof_ExchangeID H) NUL)
                                       (sizeof_ExchangeID H) (fst c),
                         InstrumentID = copy_cstr (replicate (sizeof_InstrumentID H) NUL)
                                         (sizeof_InstrumentID H) (snd c)\<rparr>"
  have m: "map (fill_one (zero_req H)) contracts = map ?mk contracts"
    by (simp add: fill_one_zero_req)
  assume "nsq_api t \<noteq> 0 \<and> length contracts < 2 ^ 31"
  then show "PyNsqApi_ReqFutuDepthMarketDataSubscribe H W t contracts request_id =
        (ret_int W (nsq_calls t)
           (NsqApi_ReqFutuDepthMarketDataSubscribe (nsq_api t) (map ?mk contracts)
              (int (length contracts)) request_id),
         t\<lparr>nsq_calls := nsq_calls t @
             [NsqApi_ReqFutuDepthMarketDataSubscribe (nsq_api t) (map ?mk contracts)
                (int (length contracts)) request_id]\<rparr>)"
    unfolding m [symmetric]
    by (simp add: PyNsqApi_ReqFutuDepthMarketDataSubscribe_def fill_reqs_eq_map
        int_of_size_t_small nsq_int_def nsq_do_def Let_def)
qed

text \<open>
  With \<open>2 ^ 31\<close> contracts the count handed to the vendor is \<open>(int)reqs.size()\<close>,
  which is \<open>- 2 ^ 31\<close> and not the length of the list.
\<close>

theorem subscribe_count_counterexample:
  "nsq_api (PyNsqApi_ctor sample_vendor [] ''./log/'' []) = 4096
   \<and> int (length (replicate (2 ^ 31) (''F3'', ''cu2501''))) = 2147483648
   \<and> nCount (last (nsq_calls (snd (PyNsqApi_ReqFutuDepthMarketDataSubscribe sample_header
        sample_vendor (PyNsqApi_ctor sample_vendor [] ''./log/'' [])
        (replicate (2 ^ 31) (''F3'', ''cu2501'')) 1)))) = - 2147483648"
proof -
  have l: "length (replicate (2 ^ 31 :: nat) (''F3'', ''cu2501'')) = 2 ^ 31" by simp
  have "length (fill_reqs (replicate (2 ^ 31) (''F3'', ''cu2501'')) 0
          (replicate (length (replicate (2 ^ 31 :: nat) (''F3'', ''cu2501''))) (zero_req sample_header)))
        = 2 ^ 31"
    unfolding length_fill_reqs by simp
  then show ?thesis
    by (simp add: PyNsqApi_ReqFutuDepthMarketDataSubscribe_def PyNsqApi_ctor_def sample_vendor_def
        nsq_int_def nsq_do_def nCount_def int_of_size_t_wraps Let_def)
qed

section \<open>Sessions: creation and the null-handle guard\<close>

theorem subscribe_one_entry_each_witness:
  "api (PyMdApi_ctor sample_vendor [] ''flow/'') \<noteq> 0
   \<and> length [''cu2501'', ''ag2502''] < (2::nat) ^ 31
   \<and> PyMdApi_SubscribeMarketData sample_vendor (PyMdApi_ctor sample_vendor [] ''flow/'')
        [''cu2501'', ''ag2502'']
      = (3, \<lparr>api = 4096, ctp_calls =
               [CreateFtdcMdApi (c_str ''flow/''),
                MdApi_SubscribeMarketData 4096 [c_str ''cu2501'', c_str ''ag2502''] 2]\<rparr>)
   \<and> nsq_api (PyNsqApi_ctor sample_vendor [] ''./log/'' []) \<noteq> 0
   \<and> length [(''F3'', ''cu2501'')] < (2::nat) ^ 31
   \<and> PyNsqApi_ReqFutuDepthMarketDataSubscribe sample_header sample_vendor
        (PyNsqApi_ctor sample_vendor [] ''./log/'' []) [(''F3'', ''cu2501'')] 9
      = (3, \<lparr>nsq_api = 4096, nsq_calls =
               [NewNsqApi (c_str ''./log/''),
                NsqApi_ReqFutuDepthMarketDataSubscribe 4096
                  [\<lparr>ExchangeID = ''F3'' @ [NUL, NUL, NUL],
                    InstrumentID = ''cu2501'' @ [NUL, NUL]\<rparr>] 1 9]\<rparr>)"
proof -
  have c1: "copy_cstr (replicate 5 NUL) 5 ''F3'' = ''F3'' @ [NUL, NUL, NUL]"
    by (simp add: copy_cstr_def strncpy_def memset0_def size_t_sub1_def c_str_def c_string_def
        NUL_def Let_def eval_nat_numeral)
  have c2: "copy_cstr (replicate 8 NUL) 8 ''cu2501'' = ''cu2501'' @ [NUL, NUL]"
    by (simp add: copy_cstr_def strncpy_def memset0_def size_t_sub1_def c_str_def c_string_def
        NUL_def Let_def eval_nat_numeral)
  show ?thesis
    using subscribe_one_entry_each [of "PyMdApi_ctor sample_vendor [] ''flow/''"
        "[''cu2501'', ''ag2502'']" sample_vendor "PyNsqApi_ctor sample_vendor [] ''./log/'' []"
        "[(''F3'', ''cu2501'')]" sample_header sample_vendor 9]
    by (simp add: PyMdApi_ctor_def PyNsqApi_ctor_def sample_vendor_def sample_header_def c1 c2)
qed

text \<open>
  C9. Session creation calls the vendor factory that the constructor arguments select:
  \<open>PyMdApi\<close> always \<open>CreateFtdcMdApi\<close> with the C string of \<open>flow_path\<close>;
  \<open>PyNsqApi\<close> calls \<open>NewNsqApi(flow_path)\<close> when \<open>sdk_cfg_file_path\<close> is empty and
  \<open>NewNsqApiExt(flow_path, sdk_cfg_file_path)\<close> otherwise. The handle kept is what the
  factory returns, and no other vendor call is made.
\<close>

theorem session_creation_dispatch:
  "PyMdApi_ctor V calls flow_path =
     \<lparr>api = ret_ptr V calls (CreateFtdcMdApi (c_str flow_path)),
      ctp_calls = calls @ [CreateFtdcMdApi (c_str flow_path)]\<rparr>
 \<and> (sdk_cfg_file_path = [] \<longrightarrow>
      PyNsqApi_ctor W ncalls flow_path sdk_cfg_file_path =
        \<lparr>nsq_api = ret_ptr W ncalls (NewNsqApi (c_str flow_path)),
         nsq_calls = ncalls @ [NewNsqApi (c_str flow_path)]\<rparr>)
 \<and> (sdk_cfg_file_path \<noteq> [] \<longrightarrow>
      PyNsqApi_ctor W ncalls flow_path sdk_cfg_file_path =
        \<lparr>nsq_api = ret_ptr W ncalls (NewNsqApiExt (c_str flow_path) (c_str sdk_cfg_file_path)),
         nsq_calls = ncalls @ [NewNsqApiExt (c_str flow_path) (c_str sdk_cfg_file_path)]\<rparr>)"
  by (simp add: PyMdApi_ctor_def PyNsqApi_ctor_def Let_def)

theorem session_creation_dispatch_witness:
  "ctp_calls (PyMdApi_ctor sample_vendor [] ''flow/'') = [CreateFtdcMdApi (c_str ''flow/'')]
   \<and> ([] :: string) = []
   \<and> nsq_calls (PyNsqApi_ctor sample_vendor [] ''./log/'' []) = [NewNsqApi (c_str ''./log/'')]
   \<and> ''sdk.cfg'' \<noteq> []
   \<and> nsq_calls (PyNsqApi_ctor sample_vendor [] ''./log/'' ''sdk.cfg'')
        = [NewNsqApiExt (c_str ''./log/'') (c_str ''sdk.cfg'')]"
  using session_creation_dispatch [where V = sample_vendor and calls = "[]"
      and flow_path = "''flow/''"]
    session_creation_dispatch [where W = sample_vendor and ncalls = "[]"
      and flow_path = "''./log/''" and sdk_cfg_file_path = "[]"]
    session_creation_dispatch [where W = sample_vendor and ncalls = "[]"
      and flow_path = "''./log/''" and sdk_cfg_file_path = "''sdk.cfg''"]
  by simp

text \<open>
  C2. For every method of \<open>PyMdApi\<close> and \<open>PyNsqApi\<close> that passes through to the
  vendor session object: with a null handle no vendor call is made (the state, calls
  included, is unchanged), the \<open>int\<close> methods return \<open>-1\<close>, the \<open>void\<close> methods do
  nothing and \<open>GetApiErrorMsg\<close> returns the empty string; with a non-null handle
  exactly one vendor call is made, on that handle, and the \<open>int\<close> methods return what
  the vendor returned (\<open>GetApiErrorMsg\<close> returns the vendor's message, and the empty
  string for a null message).
\<close>

theorem null_handle_guard:
  "(api s = 0 \<longrightarrow>
      PyMdApi_RegisterSpi s spi = s
    \<and> PyMdApi_RegisterFront s pszFrontAddress = s
    \<and> PyMdApi_Init s = s
    \<and> PyMdApi_Join V s = (- 1, s)
    \<and> PyMdApi_ReqUserLogin V s req nRequestID = (- 1, s)
    \<and> PyMdApi_SubscribeMarketData V s symbols = (- 1, s))
 \<and> (api s \<noteq> 0 \<longrightarrow>
      PyMdApi_RegisterSpi s spi = s\<lparr>ctp_calls := ctp_calls s @ [MdApi_RegisterSpi (api s) spi]\<rparr>
    \<and> PyMdApi_RegisterFront s pszFrontAddress
        = s\<lparr>ctp_calls := ctp_calls s @ [MdApi_RegisterFront (api s) pszFrontAddress]\<rparr>
    \<and> PyMdApi_Init s = s\<lparr>ctp_calls := ctp_calls s @ [MdApi_Init (api s)]\<rparr>
    \<and> PyMdApi_Join V s
        = (ret_int V (ctp_calls s) (MdApi_Join (api s)),
           s\<lparr>ctp_calls := ctp_calls s @ [MdApi_Join (api s)]\<rparr>)
    \<and> PyMdApi_ReqUserLogin V s req nRequestID
        = (ret_int V (ctp_calls s) (MdApi_ReqUserLogin (api s) req nRequestID),
           s\<lparr>ctp_calls := ctp_calls s @ [MdApi_ReqUserLogin (api s) req nRequestID]\<rparr>)
    \<and> PyMdApi_SubscribeMarketData V s symbols
        = (ret_int V (ctp_calls s)
             (MdApi_SubscribeMarketData (api s) (map c_str symbols)
                (int_of_size_t (length symbols))),
           s\<lparr>ctp_calls := ctp_calls s @
               [MdApi_SubscribeMarketData (api s) (map c_str symbols)
                  (int_of_size_t (length symbols))]\<rparr>))
 \<and> (nsq_api t = 0 \<longrightarrow>
      PyNsqApi_RegisterSpi t spi = t
    \<and> PyNsqApi_RegisterFront W t front = (- 1, t)
    \<and> PyNsqApi_Init W t lic_file safe_level pwd ssl_file ssl_pwd = (- 1, t)
    \<and> PyNsqApi_ReqUserLogin W t req request_id = (- 1, t)
    \<and> PyNsqApi_GetApiErrorMsg W t err = ([], t)
    \<and> PyNsqApi_ReqFutuDepthMarketDataSubscribe H W t contracts request_id = (- 1, t)
    \<and> PyNsqApi_SubscribeMarket H W t exchange_id request_id = (- 1, t))
 \<and> (nsq_api t \<noteq> 0 \<longrightarrow>
      PyNsqApi_RegisterSpi t spi = t\<lparr>nsq_calls := nsq_calls t @ [NsqApi_RegisterSpi (nsq_api t) spi]\<rparr>
    \<and> PyNsqApi_RegisterFront W t front
        = (ret_int W (nsq_calls t) (NsqApi_RegisterFront (nsq_api t) (c_str front)),
           t\<lparr>nsq_calls := nsq_calls t @ [NsqApi_RegisterFront (nsq_api t) (c_str front)]\<rparr>)
    \<and> PyNsqApi_Init W t lic_file safe_level pwd ssl_file ssl_pwd
        = (ret_int W (nsq_calls t)
             (NsqApi_Init (nsq_api t) (c_str lic_file) (c_str safe_level) (c_str pwd)
                (c_str ssl_file) (c_str ssl_pwd)),
           t\<lparr>nsq_calls := nsq_calls t @
               [NsqApi_Init (nsq_api t) (c_str lic_file) (c_str safe_level) (c_str pwd)
                  (c_str ssl_file) (c_str ssl_pwd)]\<rparr>)
    \<and> PyNsqApi_ReqUserLogin W t req request_id
        = (ret_int W (nsq_calls t) (NsqApi_ReqUserLogin (nsq_api t) req request_id),
           t\<lparr>nsq_calls := nsq_calls t @ [NsqApi_ReqUserLogin (nsq_api t) req request_id]\<rparr>)
    \<and> PyNsqApi_GetApiErrorMsg W t err
        = (case ret_str W (nsq_calls t) (NsqApi_GetApiErrorMsg (nsq_api t) err) of
             Some msg \<Rightarrow> msg | None \<Rightarrow> [],
           t\<lparr>nsq_calls := nsq_calls t @ [NsqApi_GetApiErrorMsg (nsq_api t) err]\<rparr>)
    \<and> fst (PyNsqApi_ReqFutuDepthMarketDataSubscribe H W t contracts request_id)
        = ret_int W (nsq_calls t)
            (NsqApi_ReqFutuDepthMarketDataSubscribe (nsq_api t)
               (map (fill_one (zero_req H)) contracts) (int_of_size_t (length contracts))
               request_id)
    \<and> nsq_calls (snd (PyNsqApi_ReqFutuDepthMarketDataSubscribe H W t contracts request_id))
        = nsq_calls t @
            [NsqApi_ReqFutuDepthMarketDataSubscribe (nsq_api t)
               (map (fill_one (zero_req H)) contracts) (int_of_size_t (length contracts))
               request_id]
    \<and> fst (PyNsqApi_SubscribeMarket H W t exchange_id request_id)
        = ret_int W (nsq_calls t)
            (NsqApi_ReqFutuDepthMarketDataSubscribe (nsq_api t)
               [(zero_req H)\<lparr>ExchangeID := copy_cstr (replicate (sizeof_ExchangeID H) NUL)
                                              (sizeof_ExchangeID H) exchange_id\<rparr>] 0 request_id)
    \<and> nsq_calls (snd (PyNsqApi_SubscribeMarket H W t exchange_id request_id))
        = nsq_calls t @
            [NsqApi_ReqFutuDepthMarketDataSubscribe (nsq_api t)
               [(zero_req H)\<lparr>ExchangeID := copy_cstr (replicate (sizeof_ExchangeID H) NUL)
                                              (sizeof_ExchangeID H) exchange_id\<rparr>] 0 request_id])"
proof -
  have ctp0: "api s = 0 \<longrightarrow>
      PyMdApi_RegisterSpi s spi = s
    \<and> PyMdApi_RegisterFront s pszFrontAddress = s
    \<and> PyMdApi_Init s = s
    \<and> PyMdApi_Join V s = (- 1, s)
    \<and> PyMdApi_ReqUserLogin V s req nRequestID = (- 1, s)
    \<and> PyMdApi_SubscribeMarketData V s symbols = (- 1, s)"
    by (simp add: PyMdApi_RegisterSpi_def PyMdApi_RegisterFront_def PyMdApi_Init_def
        PyMdApi_Join_def PyMdApi_ReqUserLogin_def PyMdApi_SubscribeMarketData_def)
  have ctp1: "api s \<noteq> 0 \<longrightarrow>
      PyMdApi_RegisterSpi s spi = s\<lparr>ctp_calls := ctp_calls s @ [MdApi_RegisterSpi (api s) spi]\<rparr>
    \<and> PyMdApi_RegisterFront s pszFrontAddress
        = s\<lparr>ctp_calls := ctp_calls s @ [MdApi_RegisterFront (api s) pszFrontAddress]\<rparr>
    \<and> PyMdApi_Init s = s\<lparr>ctp_calls := ctp_calls s @ [MdApi_Init (api s)]\<rparr>
    \<and> PyMdApi_Join V s
        = (ret_int V (ctp_calls s) (MdApi_Join (api s)),
           s\<lparr>ctp_calls := ctp_calls s @ [MdApi_Join (api s)]\<rparr>)
    \<and> PyMdApi_ReqUserLogin V s req nRequestID
        = (ret_int V (ctp_calls s) (MdApi_ReqUserLogin (api s) req nRequestID),
           s\<lparr>ctp_calls := ctp_calls s @ [MdApi_ReqUserLogin (api s) req nRequestID]\<rparr>)
    \<and> PyMdApi_SubscribeMarketData V s symbols
        = (ret_int V (ctp_calls s)
             (MdApi_SubscribeMarketData (api s) (map c_str symbols)
                (int_of_size_t (length symbols))),
           s\<lparr>ctp_calls := ctp_calls s @
               [MdApi_SubscribeMarketData (api s) (map c_str symbols)
                  (int_of_size_t (length symbols))]\<rparr>)"
    by (simp add: PyMdApi_RegisterSpi_def PyMdApi_RegisterFront_def PyMdApi_Init_def
        PyMdApi_Join_def PyMdApi_ReqUserLogin_def PyMdApi_SubscribeMarketData_def
        ctp_int_def ctp_do_def push_symbols_eq Let_def)
  have nsq0: "nsq_api t = 0 \<longrightarrow>
      PyNsqApi_RegisterSpi t spi = t
    \<and> PyNsqApi_RegisterFront W t front = (- 1, t)
    \<and> PyNsqApi_Init W t lic_file safe_level pwd ssl_file ssl_pwd = (- 1, t)
    \<and> PyNsqApi_ReqUserLogin W t req request_id = (- 1, t)
    \<and> PyNsqApi_GetApiErrorMsg W t err = ([], t)
    \<and> PyNsqApi_ReqFutuDepthMarketDataSubscribe H W t contracts request_id = (- 1, t)
    \<and> PyNsqApi_SubscribeMarket H W t exchange_id request_id = (- 1, t)"
    by (simp add: PyNsqApi_RegisterSpi_def PyNsqApi_RegisterFront_def PyNsqApi_Init_def
        PyNsqApi_ReqUserLogin_def PyNsqApi_GetApiErrorMsg_def
        PyNsqApi_ReqFutuDepthMarketDataSubscribe_def PyNsqApi_SubscribeMarket_def)
  have nsq1: "nsq_api t \<noteq> 0 \<longrightarrow>
      PyNsqApi_RegisterSpi t spi = t\<lparr>nsq_calls := nsq_calls t @ [NsqApi_RegisterSpi (nsq_api t) spi]\<rparr>
    \<and> PyNsqApi_RegisterFront W t front
        = (ret_int W (nsq_calls t) (NsqApi_RegisterFront (nsq_api t) (c_str front)),
           t\<lparr>nsq_calls := nsq_calls t @ [NsqApi_RegisterFront (nsq_api t) (c_str front)]\<rparr>)
    \<and> PyNsqApi_Init W t lic_file safe_level pwd ssl_file ssl_pwd
        = (ret_int W (nsq_calls t)
             (NsqApi_Init (nsq_api t) (c_str lic_file) (c_str safe_level) (c_str pwd)
                (c_str ssl_file) (c_str ssl_pwd)),
           t\<lparr>nsq_calls := nsq_calls t @
               [NsqApi_Init (nsq_api t) (c_str lic_file) (c_str safe_level) (c_str pwd)
                  (c_str ssl_file) (c_str ssl_pwd)]\<rparr>)
    \<and> PyNsqApi_ReqUserLogin W t req request_id
        = (ret_int W (nsq_calls t) (NsqApi_ReqUserLogin (nsq_api t) req request_id),
           t\<lparr>nsq_calls := nsq_calls t @ [NsqApi_ReqUserLogin (nsq_api t) req request_id]\<rparr>)
    \<and> PyNsqApi_GetApiErrorMsg W t err
        = (case ret_str W (nsq_calls t) (NsqApi_GetApiErrorMsg (nsq_api t) err) of
             Some msg \<Rightarrow> msg | None \<Rightarrow> [],
           t\<lparr>nsq_calls := nsq_calls t @ [NsqApi_GetApiErrorMsg (nsq_api t) err]\<rparr>)"
    by (simp add: PyNsqApi_RegisterSpi_def PyNsqApi_RegisterFront_def PyNsqApi_Init_def
        PyNsqApi_ReqUserLogin_def PyNsqApi_GetApiErrorMsg_def nsq_int_def nsq_do_def Let_def)
  have nsq2: "nsq_api t \<noteq> 0 \<longrightarrow>
      fst (PyNsqApi_ReqFutuDepthMarketDataSubscribe H W t contracts request_id)
        = ret_int W (nsq_calls t)
            (NsqApi_ReqFutuDepthMarketDataSubscribe (nsq_api t)
               (map (fill_one (zero_req H)) contracts) (int_of_size_t (length contracts))
               request_id)
    \<and> nsq_calls (snd (PyNsqApi_ReqFutuDepthMarketDataSubscribe H W t contracts request_id))
        = nsq_calls t @
            [NsqApi_ReqFutuDepthMarketDataSubscribe (nsq_api t)
               (map (fill_one (zero_req H)) contracts) (int_of_size_t (length contracts))
               request_id]"
    by (simp add: PyNsqApi_ReqFutuDepthMarketDataSubscribe_def fill_reqs_eq_map nsq_int_def
        nsq_do_def Let_def)
  have nsq3: "nsq_api t \<noteq> 0 \<longrightarrow>
      fst (PyNsqApi_SubscribeMarket H W t exchange_id request_id)
        = ret_int W (nsq_calls t)
            (NsqApi_ReqFutuDepthMarketDataSubscribe (nsq_api t)
               [(zero_req H)\<lparr>ExchangeID := copy_cstr (replicate (sizeof_ExchangeID H) NUL)
                                              (sizeof_ExchangeID H) exchange_id\<rparr>] 0 request_id)
    \<and> nsq_calls (snd (PyNsqApi_SubscribeMarket H W t exchange_id request_id))
        = nsq_calls t @
            [NsqApi_ReqFutuDepthMarketDataSubscribe (nsq_api t)
               [(zero_req H)\<lparr>ExchangeID := copy_cstr (replicate (sizeof_ExchangeID H) NUL)
                                              (sizeof_ExchangeID H) exchange_id\<rparr>] 0 request_id]"
    by (simp add: PyNsqApi_SubscribeMarket_def nsq_int_def nsq_do_def Let_def zero_req_def
        sizeof_def)
  from ctp0 ctp1 nsq0 nsq1 nsq2 nsq3 show ?thesis by blast
qed

section \<open>Release, and the callback trampolines\<close>

theorem null_handle_guard_witness:
  "api \<lparr>api = 0, ctp_calls = []\<rparr> = 0
   \<and> PyMdApi_Join sample_vendor \<lparr>api = 0, ctp_calls = []\<rparr> = (- 1, \<lparr>api = 0, ctp_calls = []\<rparr>)
   \<and> api \<lparr>api = 4096, ctp_calls = []\<rparr> \<noteq> 0
   \<and> PyMdApi_Join sample_vendor \<lparr>api = 4096, ctp_calls = []\<rparr>
        = (3, \<lparr>api = 4096, ctp_calls = [MdApi_Join 4096]\<rparr>)
   \<and> nsq_api \<lparr>nsq_api = 0, nsq_calls = []\<rparr> = 0
   \<and> PyNsqApi_SubscribeMarket sample_header sample_vendor \<lparr>nsq_api = 0, nsq_calls = []\<rparr> ''F3'' 5
        = (- 1, \<lparr>nsq_api = 0, nsq_calls = []\<rparr>)
   \<and> nsq_api \<lparr>nsq_api = 4096, nsq_calls = []\<rparr> \<noteq> 0
   \<and> PyNsqApi_RegisterFront sample_vendor \<lparr>nsq_api = 4096, nsq_calls = []\<rparr> ''tcp://h:1''
        = (3, \<lparr>nsq_api = 4096, nsq_calls = [NsqApi_RegisterFront 4096 (c_str ''tcp://h:1'')]\<rparr>)"
  using null_handle_guard [where s = "\<lparr>api = 0, ctp_calls = []\<rparr>" and V = sample_vendor
      and t = "\<lparr>nsq_api = 0, nsq_calls = []\<rparr>" and W = sample_vendor and H = sample_header
      and exchange_id = "''F3''" and request_id = 5]
    null_handle_guard [where s = "\<lparr>api = 4096, ctp_calls = []\<rparr>" and V = sample_vendor
      and t = "\<lparr>nsq_api = 4096, nsq_calls = []\<rparr>" and W = sample_vendor
      and front = "''tcp://h:1''"]
  by (simp add: sample_vendor_def)

lemma GetApiVersion_ignores_handle:
  "PyMdApi_GetApiVersion V s
     = (ret_str V (ctp_calls s) MdApi_GetApiVersion, s\<lparr>ctp_calls := ctp_calls s @ [MdApi_GetApiVersion]\<rparr>)"
  "PyNsqApi_GetApiVersion W t
     = (ret_str W (nsq_calls t) GetNsqApiVersion, t\<lparr>nsq_calls := nsq_calls t @ [GetNsqApiVersion]\<rparr>)"
  by (simp_all add: PyMdApi_GetApiVersion_def PyNsqApi_GetApiVersion_def ctp_do_def nsq_do_def)

lemma PyMdApi_dtor_releases_once:
  "api (PyMdApi_dtor s) = 0"
  "api s \<noteq> 0 \<Longrightarrow> ctp_calls (PyMdApi_dtor s) = ctp_calls s @ [MdApi_Release (api s)]"
  "api s = 0 \<Longrightarrow> PyMdApi_dtor s = s"
  "PyMdApi_dtor (PyMdApi_dtor s) = PyMdApi_dtor s"
  by (simp_all add: PyMdApi_dtor_def ctp_do_def)

lemma PyNsqApi_dtor_releases_once:
  "nsq_api (PyNsqApi_dtor t) = 0"
  "nsq_api t \<noteq> 0 \<Longrightarrow> nsq_calls (PyNsqApi_dtor t) = nsq_calls t @ [NsqApi_ReleaseApi (nsq_api t)]"
  "nsq_api t = 0 \<Longrightarrow> PyNsqApi_dtor t = t"
  "PyNsqApi_dtor (PyNsqApi_dtor t) = PyNsqApi_dtor t"
  by (simp_all add: PyNsqApi_dtor_def nsq_do_def)

lemma valid_capsuleD:
  assumes "PyCapsule_IsValid w obj name"
  shows "\<exists>a p. obj = PyRef a \<and> a < length (heap w) \<and> heap w ! a = Capsule p name \<and> p \<noteq> 0"
proof (cases obj)
  case (PyRef a)
  with assms have lt: "a < length (heap w)"
    by (auto simp: PyCapsule_IsValid_def deref_def split: if_splits)
  show ?thesis
  proof (cases "heap w ! a")
    case (Capsule p n)
    with assms PyRef lt have "p \<noteq> 0" "n = name"
      by (auto simp: PyCapsule_IsValid_def deref_def)
    with PyRef lt Capsule show ?thesis by blast
  next
    case OtherObject
    with assms PyRef lt show ?thesis by (simp add: PyCapsule_IsValid_def deref_def)
  qed
next
  case PyNone
  with assms show ?thesis by (simp add: PyCapsule_IsValid_def deref_def)
next
  case (PyBytes bs)
  with assms show ?thesis by (simp add: PyCapsule_IsValid_def deref_def)
next
  case (PyStr str)
  with assms show ?thesis by (simp add: PyCapsule_IsValid_def deref_def)
qed

lemma valid_capsuleI:
  "a < length (heap w) \<Longrightarrow> heap w ! a = Capsule p name \<Longrightarrow> p \<noteq> 0 \<Longrightarrow>
     PyCapsule_IsValid w (PyRef a) name"
  by (simp add: PyCapsule_IsValid_def deref_def)

lemma release_handle_valid:
  assumes "a < length (heap w)" "heap w ! a = Capsule p CAPSULE_EXANIC" "p \<noteq> 0"
  shows "release_handle w (PyRef a)
           = (Inr PyNone, w\<lparr>exanic_calls := exanic_calls w @ [exanic_release_handle p],
                            error_indicator := Some ValueError\<rparr>)"
  using assms
  by (simp add: release_handle_def PyCapsule_IsValid_def PyCapsule_GetPointer_def
      PyCapsule_SetPointer_def deref_def exanic_do_def Let_def)

lemma release_rx_buffer_valid:
  assumes "a < length (heap w)" "heap w ! a = Capsule p CAPSULE_EXANIC_RX" "p \<noteq> 0"
  shows "release_rx_buffer w (PyRef a)
           = (Inr PyNone, w\<lparr>exanic_calls := exanic_calls w @ [exanic_release_rx_buffer p],
                            error_indicator := Some ValueError\<rparr>)"
  using assms
  by (simp add: release_rx_buffer_def PyCapsule_IsValid_def PyCapsule_GetPointer_def
      PyCapsule_SetPointer_def deref_def exanic_do_def Let_def)

lemma release_keeps_capsule_valid:
  "PyCapsule_IsValid w cap CAPSULE_EXANIC \<Longrightarrow>
     PyCapsule_IsValid (snd (release_handle w cap)) cap CAPSULE_EXANIC"
  "PyCapsule_IsValid w cap CAPSULE_EXANIC_RX \<Longrightarrow>
     PyCapsule_IsValid (snd (release_rx_buffer w cap)) cap CAPSULE_EXANIC_RX"
  by (auto dest!: valid_capsuleD simp: release_handle_valid release_rx_buffer_valid
      intro!: valid_capsuleI)

text \<open>
  C1. The destructors of \<open>PyMdApi\<close> and \<open>PyNsqApi\<close> release a non-null handle once
  and null the member, so that a second run makes no vendor call
  (\<open>PyMdApi_dtor_releases_once\<close>, \<open>PyNsqApi_dtor_releases_once\<close>). The two release
  functions of \<open>exanic_pybind\<close> do not: \<open>PyCapsule_SetPointer\<close> refuses a null
  pointer, so the capsule keeps the released pointer and stays valid
  (\<open>release_keeps_capsule_valid\<close>). Evaluated on a handle acquired for \<open>exanic0\<close>
  where the vendor returns the address \<open>4096\<close>: releasing the capsule twice calls
  \<open>exanic_release_handle\<close> twice on that address, and after the first release the
  capsule still holds it.
\<close>

theorem release_handle_twice:
  "fst (acquire_handle sample_vendor empty_interp ''exanic0'') = Inr (PyRef 0)
   \<and> exanic_calls (snd (release_handle (snd (release_handle
        (snd (acquire_handle sample_vendor empty_interp ''exanic0'')) (PyRef 0))) (PyRef 0)))
      = [exanic_acquire_handle (c_str ''exanic0''),
         exanic_release_handle 4096, exanic_release_handle 4096]
   \<and> heap (snd (release_handle (snd (acquire_handle sample_vendor empty_interp ''exanic0''))
        (PyRef 0))) = [Capsule 4096 ''exanic_t'']"
  by (simp add: acquire_handle_def release_handle_def py_capsule_def PyCapsule_IsValid_def
      PyCapsule_GetPointer_def PyCapsule_SetPointer_def deref_def exanic_do_def Let_def
      sample_vendor_def empty_interp_def CAPSULE_EXANIC_def)

text \<open>
  C5. Each of the eleven overridden callbacks (six of \<open>PyMdSpi\<close>, five of
  \<open>PyNsqSpi\<close>) does exactly one thing: when the Python object overrides the method of
  the same name, that override is called with the callback's arguments, unchanged and
  in order; otherwise the method of that name of the vendor base class is, with the
  same arguments.
\<close>

theorem trampolines_forward:
  "PyMdSpi_OnFrontConnected overrides evs =
     (if overrides ''OnFrontConnected'' then evs @ [PyOverride ''OnFrontConnected'' []]
      else evs @ [BaseMethod ''CThostFtdcMdSpi'' ''OnFrontConnected'' []])
 \<and> PyMdSpi_OnFrontDisconnected nReason overrides evs =
     (if overrides ''OnFrontDisconnected''
      then evs @ [PyOverride ''OnFrontDisconnected'' [ArgInt nReason]]
      else evs @ [BaseMethod ''CThostFtdcMdSpi'' ''OnFrontDisconnected'' [ArgInt nReason]])
 \<and> PyMdSpi_OnRspUserLogin pRspUserLogin pRspInfo nRequestID bIsLast overrides evs =
     (if overrides ''OnRspUserLogin''
      then evs @ [PyOverride ''OnRspUserLogin''
                    [ArgPtr pRspUserLogin, ArgPtr pRspInfo, ArgInt nRequestID, ArgBool bIsLast]]
      else evs @ [BaseMethod ''CThostFtdcMdSpi'' ''OnRspUserLogin''
                    [ArgPtr pRspUserLogin, ArgPtr pRspInfo, ArgInt nRequestID, ArgBool bIsLast]])
 \<and> PyMdSpi_OnRtnDepthMarketData pDepthMarketData overrides evs =
     (if overrides ''OnRtnDepthMarketData''
      then evs @ [PyOverride ''OnRtnDepthMarketData'' [ArgPtr pDepthMarketData]]
      else evs @ [BaseMethod ''CThostFtdcMdSpi'' ''OnRtnDepthMarketData'' [ArgPtr pDepthMarketData]])
 \<and> PyMdSpi_OnRspSubMarketData pSpecificInstrument pRspInfo nRequestID bIsLast overrides evs =
     (if overrides ''OnRspSubMarketData''
      then evs @ [PyOverride ''OnRspSubMarketData''
                    [ArgPtr pSpecificInstrument, ArgPtr pRspInfo, ArgInt nRequestID, ArgBool bIsLast]]
      else evs @ [BaseMethod ''CThostFtdcMdSpi'' ''OnRspSubMarketData''
                    [ArgPtr pSpecificInstrument, ArgPtr pRspInfo, ArgInt nRequestID, ArgBool bIsLast]])
 \<and> PyMdSpi_OnRspError pRspInfo nRequestID bIsLast overrides evs =
     (if overrides ''OnRspError''
      then evs @ [PyOverride ''OnRspError'' [ArgPtr pRspInfo, ArgInt nRequestID, ArgBool bIsLast]]
      else evs @ [BaseMethod ''CThostFtdcMdSpi'' ''OnRspError''
                    [ArgPtr pRspInfo, ArgInt nRequestID, ArgBool bIsLast]])
 \<and> PyNsqSpi_OnFrontConnected overrides evs =
     (if overrides ''OnFrontConnected'' then evs @ [PyOverride ''OnFrontConnected'' []]
      else evs @ [BaseMethod ''CHSNsqSpi'' ''OnFrontConnected'' []])
 \<and> PyNsqSpi_OnFrontDisconnected nResult overrides evs =
     (if overrides ''OnFrontDisconnected''
      then evs @ [PyOverride ''OnFrontDisconnected'' [ArgInt nResult]]
      else evs @ [BaseMethod ''CHSNsqSpi'' ''OnFrontDisconnected'' [ArgInt nResult]])
 \<and> PyNsqSpi_OnRspUserLogin pRspUserLogin pRspInfo nRequestID bIsLast overrides evs =
     (if overrides ''OnRspUserLogin''
      then evs @ [PyOverride ''OnRspUserLogin''
                    [ArgPtr pRspUserLogin, ArgPtr pRspInfo, ArgInt nRequestID, ArgBool bIsLast]]
      else evs @ [BaseMethod ''CHSNsqSpi'' ''OnRspUserLogin''
                    [ArgPtr pRspUserLogin, ArgPtr pRspInfo, ArgInt nRequestID, ArgBool bIsLast]])
 \<and> PyNsqSpi_OnRspFutuDepthMarketDataSubscribe pRspInfo nRequestID bIsLast overrides evs =
     (if overrides ''OnRspFutuDepthMarketDataSubscribe''
      then evs @ [PyOverride ''OnRspFutuDepthMarketDataSubscribe''
                    [ArgPtr pRspInfo, ArgInt nRequestID, ArgBool bIsLast]]
      else evs @ [BaseMethod ''CHSNsqSpi'' ''OnRspFutuDepthMarketDataSubscribe''
                    [ArgPtr pRspInfo, ArgInt nRequestID, ArgBool bIsLast]])
 \<and> PyNsqSpi_OnRtnFutuDepthMarketData pFutuDepthMarketData overrides evs =
     (if overrides ''OnRtnFutuDepthMarketData''
      then evs @ [PyOverride ''OnRtnFutuDepthMarketData'' [ArgPtr pFutuDepthMarketData]]
      else evs @ [BaseMethod ''CHSNsqSpi'' ''OnRtnFutuDepthMarketData''
                    [ArgPtr pFutuDepthMarketData]])"
  unfolding PyMdSpi_OnFrontConnected_def PyMdSpi_OnFrontDisconnected_def
    PyMdSpi_OnRspUserLogin_def PyMdSpi_OnRtnDepthMarketData_def PyMdSpi_OnRspSubMarketData_def
    PyMdSpi_OnRspError_def PyNsqSpi_OnFrontConnected_def PyNsqSpi_OnFrontDisconnected_def
    PyNsqSpi_OnRspUserLogin_def PyNsqSpi_OnRspFutuDepthMarketDataSubscribe_def
    PyNsqSpi_OnRtnFutuDepthMarketData_def PYBIND11_OVERLOAD_def
  by (intro conjI refl)

theorem trampolines_forward_witness:
  "PyMdSpi_OnRspError 7 1 True (\<lambda>n. n = ''OnRspError'') []
     = [PyOverride ''OnRspError'' [ArgPtr 7, ArgInt 1, ArgBool True]]
   \<and> PyNsqSpi_OnFrontDisconnected 4097 (\<lambda>n. n = ''OnRspError'') []
     = [BaseMethod ''CHSNsqSpi'' ''OnFrontDisconnected'' [ArgInt 4097]]"
  using trampolines_forward [where overrides = "\<lambda>n. n = ''OnRspError''" and evs = "[]"
      and pRspInfo = 7 and nRequestID = 1 and bIsLast = True and nResult = 4097]
  by simp

section \<open>Receiving a frame\<close>

lemma GetPointer_valid:
  "a < length (heap w) \<Longrightarrow> heap w ! a = Capsule p name \<Longrightarrow> p \<noteq> 0 \<Longrightarrow>
     PyCapsule_GetPointer w (PyRef a) name = (p, w)"
  by (simp add: PyCapsule_GetPointer_def deref_def)

lemma length_filled_buffer: "length (filled_buffer written max_size) = max_size"
  by (simp add: filled_buffer_def)

lemma filled_buffer_nth:
  "i < max_size \<Longrightarrow>
     filled_buffer written max_size ! i = (if i < length written then written ! i else NUL)"
  by (simp add: filled_buffer_def nth_append)

lemma memory_within_buffer:
  assumes "n \<le> max_size"
  shows "map (memory_at_buffer written max_size after) [0..<n]
           = take n (filled_buffer written max_size)"
proof (rule nth_equalityI)
  show "length (map (memory_at_buffer written max_size after) [0..<n])
          = length (take n (filled_buffer written max_size))"
    using assms by (simp add: length_filled_buffer)
next
  fix i assume "i < length (map (memory_at_buffer written max_size after) [0..<n])"
  then have i: "i < n" by simp
  with assms have im: "i < max_size" by simp
  from i im show "map (memory_at_buffer written max_size after) [0..<n] ! i
          = take n (filled_buffer written max_size) ! i"
    by (simp add: filled_buffer_nth memory_at_buffer_def)
qed

lemma receive_frame_valid:
  assumes "a < length (heap w)" and "heap w ! a = Capsule rx CAPSULE_EXANIC_RX" and "rx \<noteq> 0"
  shows "receive_frame E V w (PyRef a) max_size =
           (let m = (if max_size = 0 then 2048 else max_size);
                c = exanic_receive_frame rx m;
                n = ret_int V (exanic_calls w) c
            in (case string_ctor E m of
                  Some e \<Rightarrow> (Inl e, w)
                | None \<Rightarrow>
                    (if n \<le> 0 then Inr (PyBytes [])
                     else Inr (PyBytes (map (memory_at_buffer (ret_bytes V (exanic_calls w) c) m
                                              (beyond E)) [0..<nat n])),
                     w\<lparr>exanic_calls := exanic_calls w @ [c]\<rparr>)))"
proof -
  have v: "PyCapsule_IsValid w (PyRef a) CAPSULE_EXANIC_RX"
    using assms(1-3) by (rule valid_capsuleI)
  have g: "PyCapsule_GetPointer w (PyRef a) CAPSULE_EXANIC_RX = (rx, w)"
    using assms(1-3) by (rule GetPointer_valid)
  show ?thesis
    by (simp add: receive_frame_def Let_def v g exanic_do_def py_bytes_def split: option.split)
qed

lemma receive_frame_no_buffer:
  assumes "a < length (heap w)" and "heap w ! a = Capsule rx CAPSULE_EXANIC_RX" and "rx \<noteq> 0"
      and "string_ctor E (if max_size = 0 then 2048 else max_size) = Some e"
  shows "receive_frame E V w (PyRef a) max_size = (Inl e, w)"
  using assms(4) by (simp add: receive_frame_valid [OF assms(1-3)] Let_def)

text \<open>
  C6, as amended. For a valid RX capsule and every \<open>max_size\<close> for which the buffer is
  constructed, so that the vendor receive is called: \<open>receive_frame\<close> hands the vendor a
  buffer of \<open>m\<close> bytes, where \<open>m\<close> is \<open>2048\<close> for \<open>max_size = 0\<close> and \<open>max_size\<close>
  otherwise; when the vendor returns a length \<open>n \<le> 0\<close> the result is the empty bytes
  object; when \<open>n\<close> is positive and at most \<open>m\<close> the result is exactly the first \<open>n\<close>
  bytes of the buffer; and for \<open>n\<close> at most \<open>m\<close> a bytes object that is returned has at
  most \<open>m\<close> bytes. (The code does not compare \<open>n\<close> with \<open>m\<close>.)
\<close>

theorem receive_frame_bytes:
  assumes "a < length (heap w)" and "heap w ! a = Capsule rx CAPSULE_EXANIC_RX" and "rx \<noteq> 0"
      and "m = (if max_size = 0 then 2048 else max_size)"
      and "string_ctor E m = None"
      and "n = ret_int V (exanic_calls w) (exanic_receive_frame rx m)"
      and "buf = filled_buffer (ret_bytes V (exanic_calls w) (exanic_receive_frame rx m)) m"
  shows "exanic_calls (snd (receive_frame E V w (PyRef a) max_size))
           = exanic_calls w @ [exanic_receive_frame rx m]
       \<and> length buf = m
       \<and> (n \<le> 0 \<longrightarrow> fst (receive_frame E V w (PyRef a) max_size) = Inr (PyBytes []))
       \<and> (0 < n \<and> nat n \<le> m \<longrightarrow>
            fst (receive_frame E V w (PyRef a) max_size) = Inr (PyBytes (take (nat n) buf))
          \<and> length (take (nat n) buf) = nat n)
       \<and> (nat n \<le> m \<longrightarrow>
            (\<forall>bs. fst (receive_frame E V w (PyRef a) max_size) = Inr (PyBytes bs) \<longrightarrow>
                  length bs \<le> m))"
proof -
  let ?mem = "memory_at_buffer (ret_bytes V (exanic_calls w) (exanic_receive_frame rx m)) m (beyond E)"
  have r: "receive_frame E V w (PyRef a) max_size =
             (if n \<le> 0 then Inr (PyBytes []) else Inr (PyBytes (map ?mem [0..<nat n])),
              w\<lparr>exanic_calls := exanic_calls w @ [exanic_receive_frame rx m]\<rparr>)"
    unfolding receive_frame_valid [OF assms(1-3)] Let_def assms(4) [symmetric]
    using assms(5) by (simp add: assms(6))
  have len: "length buf = m" unfolding assms(7) by (rule length_filled_buffer)
  have within: "nat n \<le> m \<Longrightarrow> map ?mem [0..<nat n] = take (nat n) buf"
    unfolding assms(7) by (rule memory_within_buffer)
  have c1: "exanic_calls (snd (receive_frame E V w (PyRef a) max_size))
           = exanic_calls w @ [exanic_receive_frame rx m]"
    unfolding r by simp
  have c2: "n \<le> 0 \<longrightarrow> fst (receive_frame E V w (PyRef a) max_size) = Inr (PyBytes [])"
    unfolding r by simp
  have c3: "0 < n \<and> nat n \<le> m \<longrightarrow>
            fst (receive_frame E V w (PyRef a) max_size) = Inr (PyBytes (take (nat n) buf))
          \<and> length (take (nat n) buf) = nat n"
    unfolding r using len within by simp
  have c4: "nat n \<le> m \<longrightarrow>
            (\<forall>bs. fst (receive_frame E V w (PyRef a) max_size) = Inr (PyBytes bs) \<longrightarrow>
                  length bs \<le> m)"
    unfolding r by (auto split: if_splits)
  from c1 len c2 c3 c4 show ?thesis by blast
qed

theorem receive_frame_bytes_witness:
  "(0::nat) < length (heap rx_interp)
   \<and> heap rx_interp ! 0 = Capsule 4096 CAPSULE_EXANIC_RX
   \<and> (4096::nat) \<noteq> 0
   \<and> string_ctor sample_env 2048 = None
   \<and> (0::int) < 3 \<and> nat 3 \<le> (2048::nat)
   \<and> receive_frame sample_env sample_vendor rx_interp (PyRef 0) 0
      = (Inr (PyBytes ''fra''),
         \<lparr>heap = [Capsule 4096 ''exanic_rx_t''], exanic_calls = [exanic_receive_frame 4096 2048],
          error_indicator = None\<rparr>)"
proof -
  let ?w = rx_interp
  have h1: "0 < length (heap ?w)" by (simp add: rx_interp_def)
  have h2: "heap ?w ! 0 = Capsule 4096 CAPSULE_EXANIC_RX"
    by (simp add: rx_interp_def CAPSULE_EXANIC_RX_def)
  have h3: "(4096::nat) \<noteq> 0" by simp
  have h4: "(2048::nat) = (if (0::nat) = 0 then 2048 else 0)" by simp
  have h5: "string_ctor sample_env 2048 = None" by (simp add: sample_env_def)
  have h6: "(3::int) = ret_int sample_vendor (exanic_calls ?w) (exanic_receive_frame 4096 2048)"
    by (simp add: sample_vendor_def)
  have h7: "filled_buffer ''frame'' 2048
              = filled_buffer (ret_bytes sample_vendor (exanic_calls ?w)
                  (exanic_receive_frame 4096 2048)) 2048"
    by (simp add: sample_vendor_def)
  have t: "take (nat 3) (filled_buffer ''frame'' 2048) = ''fra''"
    by (simp add: filled_buffer_def eval_nat_numeral)
  from receive_frame_bytes [OF h1 h2 h3 h4 h5 h6 h7]
  have "exanic_calls (snd (receive_frame sample_env sample_vendor ?w (PyRef 0) 0))
          = [exanic_receive_frame 4096 2048]"
    and "fst (receive_frame sample_env sample_vendor ?w (PyRef 0) 0) = Inr (PyBytes ''fra'')"
    unfolding t by (simp_all add: rx_interp_def)
  moreover have "heap (snd (receive_frame sample_env sample_vendor ?w (PyRef 0) 0)) = heap ?w
      \<and> error_indicator (snd (receive_frame sample_env sample_vendor ?w (PyRef 0) 0))
          = error_indicator ?w"
    using h5 by (simp add: receive_frame_valid [OF h1 h2 h3] Let_def)
  ultimately have "receive_frame sample_env sample_vendor ?w (PyRef 0) 0
      = (Inr (PyBytes ''fra''),
         \<lparr>heap = [Capsule 4096 ''exanic_rx_t''], exanic_calls = [exanic_receive_frame 4096 2048],
          error_indicator = None\<rparr>)"
    by (cases "receive_frame sample_env sample_vendor ?w (PyRef 0) 0")
      (auto intro: interp.equality simp: rx_interp_def)
  with h1 h2 h3 h5 show ?thesis by simp
qed

text \<open>
  A vendor that returns the length 5 for a buffer of 4 bytes: the bytes object has 5
  bytes, the four of the buffer and the terminator of the string after them.
\<close>

theorem receive_frame_bytes_counterexample:
  "PyCapsule_IsValid rx_interp (PyRef 0) CAPSULE_EXANIC_RX
   \<and> string_ctor sample_env 4 = None
   \<and> ret_int overlong_vendor (exanic_calls rx_interp) (exanic_receive_frame 4096 4) = 5
   \<and> fst (receive_frame sample_env overlong_vendor rx_interp (PyRef 0) 4)
       = Inr (PyBytes [CHR ''f'', CHR ''r'', CHR ''a'', CHR ''m'', NUL])
   \<and> \<not> length [CHR ''f'', CHR ''r'', CHR ''a'', CHR ''m'', NUL] \<le> (4::nat)"
proof -
  have h1: "0 < length (heap rx_interp)" by (simp add: rx_interp_def)
  have h2: "heap rx_interp ! 0 = Capsule 4096 CAPSULE_EXANIC_RX"
    by (simp add: rx_interp_def CAPSULE_EXANIC_RX_def)
  have h3: "(4096::nat) \<noteq> 0" by simp
  have v: "PyCapsule_IsValid rx_interp (PyRef 0) CAPSULE_EXANIC_RX"
    using h1 h2 h3 by (rule valid_capsuleI)
  have s: "string_ctor sample_env 4 = None" by (simp add: sample_env_def)
  have n: "ret_int overlong_vendor (exanic_calls rx_interp) (exanic_receive_frame 4096 4) = 5"
    by (simp add: overlong_vendor_def)
  have b: "ret_bytes overlong_vendor (exanic_calls rx_interp) (exanic_receive_frame 4096 4) = ''fram''"
    by (simp add: overlong_vendor_def)
  have u: "[0..<5] = [0, 1, 2, 3, 4::nat]" by code_simp
  have "fst (receive_frame sample_env overlong_vendor rx_interp (PyRef 0) 4)
       = Inr (PyBytes [CHR ''f'', CHR ''r'', CHR ''a'', CHR ''m'', NUL])"
    by (simp add: receive_frame_valid [OF h1 h2 h3] Let_def s n b u memory_at_buffer_def)
  with v s n show ?thesis by simp
qed

section \<open>Capsules guard the vendor calls\<close>

lemma acquire_rx_buffer_valid:
  assumes "a < length (heap w)" and "heap w ! a = Capsule nic CAPSULE_EXANIC" and "nic \<noteq> 0"
  shows "acquire_rx_buffer V w (PyRef a) port_number buffer_number =
           (let c = exanic_acquire_rx_buffer nic port_number buffer_number;
                rx = ret_ptr V (exanic_calls w) c
            in if rx = 0 then (Inr PyNone, w\<lparr>exanic_calls := exanic_calls w @ [c]\<rparr>)
               else (Inr (PyRef (length (heap w))),
                     w\<lparr>exanic_calls := exanic_calls w @ [c],
                       heap := heap w @ [Capsule rx CAPSULE_EXANIC_RX]\<rparr>))"
proof -
  have v: "PyCapsule_IsValid w (PyRef a) CAPSULE_EXANIC"
    using assms by (rule valid_capsuleI)
  have g: "PyCapsule_GetPointer w (PyRef a) CAPSULE_EXANIC = (nic, w)"
    using assms by (rule GetPointer_valid)
  show ?thesis
    by (simp add: acquire_rx_buffer_def Let_def v g exanic_do_def py_capsule_def)
qed

lemma acquire_handle_eq:
  "acquire_handle V w device_name =
     (let c = exanic_acquire_handle (c_str device_name);
          nic = ret_ptr V (exanic_calls w) c
      in if nic = 0 then (Inr PyNone, w\<lparr>exanic_calls := exanic_calls w @ [c]\<rparr>)
         else (Inr (PyRef (length (heap w))),
               w\<lparr>exanic_calls := exanic_calls w @ [c],
                 heap := heap w @ [Capsule nic CAPSULE_EXANIC]\<rparr>))"
  by (simp add: acquire_handle_def Let_def exanic_do_def py_capsule_def)

text \<open>
  C7. A vendor function of \<open>exanic_pybind\<close> that takes a handle is only ever called
  with the pointer of a valid capsule of the expected name. On a capsule argument that
  is not valid, \<open>acquire_rx_buffer\<close> and \<open>receive_frame\<close> raise a runtime error, and
  \<open>release_handle\<close> and \<open>release_rx_buffer\<close> return \<open>None\<close>; in all four cases
  nothing is called and nothing changes. On a valid capsule each of the four makes one
  vendor call, with the (non-null) pointer that the capsule holds (\<open>receive_frame\<close>
  makes none when its buffer cannot be constructed). \<open>acquire_handle\<close>
  and \<open>acquire_rx_buffer\<close> return \<open>None\<close> exactly when the vendor returns a null
  pointer, and otherwise a new capsule named \<open>exanic_t\<close>, respectively
  \<open>exanic_rx_t\<close>, that holds the vendor's pointer.
\<close>

theorem capsules_guard_vendor_calls:
  "(\<not> PyCapsule_IsValid w cap CAPSULE_EXANIC \<longrightarrow>
      acquire_rx_buffer V w cap port_number buffer_number
        = (Inl (RuntimeError ''invalid exanic handle capsule''), w)
    \<and> release_handle w cap = (Inr PyNone, w))
 \<and> (\<not> PyCapsule_IsValid w cap CAPSULE_EXANIC_RX \<longrightarrow>
      receive_frame E V w cap max_size
        = (Inl (RuntimeError ''invalid exanic_rx handle capsule''), w)
    \<and> release_rx_buffer w cap = (Inr PyNone, w))
 \<and> (PyCapsule_IsValid w cap CAPSULE_EXANIC \<longrightarrow>
      (\<exists>a nic. cap = PyRef a \<and> a < length (heap w) \<and> heap w ! a = Capsule nic ''exanic_t''
         \<and> nic \<noteq> 0
         \<and> exanic_calls (snd (acquire_rx_buffer V w cap port_number buffer_number))
             = exanic_calls w @ [exanic_acquire_rx_buffer nic port_number buffer_number]
         \<and> exanic_calls (snd (release_handle w cap))
             = exanic_calls w @ [exanic_release_handle nic]
         \<and> (fst (acquire_rx_buffer V w cap port_number buffer_number) = Inr PyNone
              \<longleftrightarrow> ret_ptr V (exanic_calls w)
                    (exanic_acquire_rx_buffer nic port_number buffer_number) = 0)
         \<and> (ret_ptr V (exanic_calls w)
               (exanic_acquire_rx_buffer nic port_number buffer_number) \<noteq> 0 \<longrightarrow>
              fst (acquire_rx_buffer V w cap port_number buffer_number)
                = Inr (PyRef (length (heap w)))
            \<and> heap (snd (acquire_rx_buffer V w cap port_number buffer_number))
                = heap w @ [Capsule (ret_ptr V (exanic_calls w)
                     (exanic_acquire_rx_buffer nic port_number buffer_number)) ''exanic_rx_t''])))
 \<and> (PyCapsule_IsValid w cap CAPSULE_EXANIC_RX \<longrightarrow>
      (\<exists>a rx. cap = PyRef a \<and> a < length (heap w) \<and> heap w ! a = Capsule rx ''exanic_rx_t''
         \<and> rx \<noteq> 0
         \<and> exanic_calls (snd (receive_frame E V w cap max_size))
             = (if string_ctor E (if max_size = 0 then 2048 else max_size) = None
                then exanic_calls w @
                       [exanic_receive_frame rx (if max_size = 0 then 2048 else max_size)]
                else exanic_calls w)
         \<and> exanic_calls (snd (release_rx_buffer w cap))
             = exanic_calls w @ [exanic_release_rx_buffer rx]))
 \<and> exanic_calls (snd (acquire_handle V w device_name))
      = exanic_calls w @ [exanic_acquire_handle (c_str device_name)]
 \<and> (fst (acquire_handle V w device_name) = Inr PyNone
      \<longleftrightarrow> ret_ptr V (exanic_calls w) (exanic_acquire_handle (c_str device_name)) = 0)
 \<and> (ret_ptr V (exanic_calls w) (exanic_acquire_handle (c_str device_name)) \<noteq> 0 \<longrightarrow>
      fst (acquire_handle V w device_name) = Inr (PyRef (length (heap w)))
    \<and> heap (snd (acquire_handle V w device_name))
        = heap w @ [Capsule (ret_ptr V (exanic_calls w)
             (exanic_acquire_handle (c_str device_name))) ''exanic_t''])"
proof -
  have inv1: "\<not> PyCapsule_IsValid w cap CAPSULE_EXANIC \<longrightarrow>
      acquire_rx_buffer V w cap port_number buffer_number
        = (Inl (RuntimeError ''invalid exanic handle capsule''), w)
    \<and> release_handle w cap = (Inr PyNone, w)"
    by (simp add: acquire_rx_buffer_def release_handle_def)
  have inv2: "\<not> PyCapsule_IsValid w cap CAPSULE_EXANIC_RX \<longrightarrow>
      receive_frame E V w cap max_size
        = (Inl (RuntimeError ''invalid exanic_rx handle capsule''), w)
    \<and> release_rx_buffer w cap = (Inr PyNone, w)"
    by (simp add: receive_frame_def release_rx_buffer_def)
  have val1: "PyCapsule_IsValid w cap CAPSULE_EXANIC \<longrightarrow>
      (\<exists>a nic. cap = PyRef a \<and> a < length (heap w) \<and> heap w ! a = Capsule nic ''exanic_t''
         \<and> nic \<noteq> 0
         \<and> exanic_calls (snd (acquire_rx_buffer V w cap port_number buffer_number))
             = exanic_calls w @ [exanic_acquire_rx_buffer nic port_number buffer_number]
         \<and> exanic_calls (snd (release_handle w cap))
             = exanic_calls w @ [exanic_release_handle nic]
         \<and> (fst (acquire_rx_buffer V w cap port_number buffer_number) = Inr PyNone
              \<longleftrightarrow> ret_ptr V (exanic_calls w)
                    (exanic_acquire_rx_buffer nic port_number buffer_number) = 0)
         \<and> (ret_ptr V (exanic_calls w)
               (exanic_acquire_rx_buffer nic port_number buffer_number) \<noteq> 0 \<longrightarrow>
              fst (acquire_rx_buffer V w cap port_number buffer_number)
                = Inr (PyRef (length (heap w)))
            \<and> heap (snd (acquire_rx_buffer V w cap port_number buffer_number))
                = heap w @ [Capsule (ret_ptr V (exanic_calls w)
                     (exanic_acquire_rx_buffer nic port_number buffer_number)) ''exanic_rx_t'']))"
  proof
    assume "PyCapsule_IsValid w cap CAPSULE_EXANIC"
    from valid_capsuleD [OF this] obtain a nic where
      c: "cap = PyRef a" and h: "a < length (heap w)" "heap w ! a = Capsule nic CAPSULE_EXANIC"
        "nic \<noteq> 0"
      by blast
    have "heap w ! a = Capsule nic ''exanic_t''" using h(2) by (simp add: CAPSULE_EXANIC_def)
    with c h show "\<exists>a nic. cap = PyRef a \<and> a < length (heap w) \<and> heap w ! a = Capsule nic ''exanic_t''
         \<and> nic \<noteq> 0
         \<and> exanic_calls (snd (acquire_rx_buffer V w cap port_number buffer_number))
             = exanic_calls w @ [exanic_acquire_rx_buffer nic port_number buffer_number]
         \<and> exanic_calls (snd (release_handle w cap))
             = exanic_calls w @ [exanic_release_handle nic]
         \<and> (fst (acquire_rx_buffer V w cap port_number buffer_number) = Inr PyNone
              \<longleftrightarrow> ret_ptr V (exanic_calls w)
                    (exanic_acquire_rx_buffer nic port_number buffer_number) = 0)
         \<and> (ret_ptr V (exanic_calls w)
               (exanic_acquire_rx_buffer nic port_number buffer_number) \<noteq> 0 \<longrightarrow>
              fst (acquire_rx_buffer V w cap port_number buffer_number)
                = Inr (PyRef (length (heap w)))
            \<and> heap (snd (acquire_rx_buffer V w cap port_number buffer_number))
                = heap w @ [Capsule (ret_ptr V (exanic_calls w)
                     (exanic_acquire_rx_buffer nic port_number buffer_number)) ''exanic_rx_t''])"
      by (intro exI [of _ a] exI [of _ nic])
        (simp add: acquire_rx_buffer_valid [OF h] release_handle_valid [OF h] Let_def
          CAPSULE_EXANIC_RX_def)
  qed
  have val2: "PyCapsule_IsValid w cap CAPSULE_EXANIC_RX \<longrightarrow>
      (\<exists>a rx. cap = PyRef a \<and> a < length (heap w) \<and> heap w ! a = Capsule rx ''exanic_rx_t''
         \<and> rx \<noteq> 0
         \<and> exanic_calls (snd (receive_frame E V w cap max_size))
             = (if string_ctor E (if max_size = 0 then 2048 else max_size) = None
                then exanic_calls w @
                       [exanic_receive_frame rx (if max_size = 0 then 2048 else max_size)]
                else exanic_calls w)
         \<and> exanic_calls (snd (release_rx_buffer w cap))
             = exanic_calls w @ [exanic_release_rx_buffer rx])"
  proof
    assume "PyCapsule_IsValid w cap CAPSULE_EXANIC_RX"
    from valid_capsuleD [OF this] obtain a rx where
      c: "cap = PyRef a" and h: "a < length (heap w)" "heap w ! a = Capsule rx CAPSULE_EXANIC_RX"
        "rx \<noteq> 0"
      by blast
    have "heap w ! a = Capsule rx ''exanic_rx_t''" using h(2) by (simp add: CAPSULE_EXANIC_RX_def)
    with c h show "\<exists>a rx. cap = PyRef a \<and> a < length (heap w) \<and> heap w ! a = Capsule rx ''exanic_rx_t''
         \<and> rx \<noteq> 0
         \<and> exanic_calls (snd (receive_frame E V w cap max_size))
             = (if string_ctor E (if max_size = 0 then 2048 else max_size) = None
                then exanic_calls w @
                       [exanic_receive_frame rx (if max_size = 0 then 2048 else max_size)]
                else exanic_calls w)
         \<and> exanic_calls (snd (release_rx_buffer w cap))
             = exanic_calls w @ [exanic_release_rx_buffer rx]"
      by (intro exI [of _ a] exI [of _ rx])
        (simp add: receive_frame_valid [OF h] release_rx_buffer_valid [OF h] Let_def
          split: option.split)
  qed
  have acq: "exanic_calls (snd (acquire_handle V w device_name))
      = exanic_calls w @ [exanic_acquire_handle (c_str device_name)]
 \<and> (fst (acquire_handle V w device_name) = Inr PyNone
      \<longleftrightarrow> ret_ptr V (exanic_calls w) (exanic_acquire_handle (c_str device_name)) = 0)
 \<and> (ret_ptr V (exanic_calls w) (exanic_acquire_handle (c_str device_name)) \<noteq> 0 \<longrightarrow>
      fst (acquire_handle V w device_name) = Inr (PyRef (length (heap w)))
    \<and> heap (snd (acquire_handle V w device_name))
        = heap w @ [Capsule (ret_ptr V (exanic_calls w)
             (exanic_acquire_handle (c_str device_name))) ''exanic_t''])"
    by (simp add: acquire_handle_eq Let_def CAPSULE_EXANIC_def)
  from inv1 inv2 val1 val2 acq show ?thesis by blast
qed

theorem capsules_guard_vendor_calls_witness:
  "\<not> PyCapsule_IsValid empty_interp PyNone CAPSULE_EXANIC
   \<and> \<not> PyCapsule_IsValid empty_interp PyNone CAPSULE_EXANIC_RX
   \<and> acquire_rx_buffer sample_vendor empty_interp PyNone 0 0
       = (Inl (RuntimeError ''invalid exanic handle capsule''), empty_interp)
   \<and> release_rx_buffer empty_interp PyNone = (Inr PyNone, empty_interp)
   \<and> ret_ptr sample_vendor (exanic_calls empty_interp) (exanic_acquire_handle (c_str ''exanic0''))
       \<noteq> 0
   \<and> fst (acquire_handle sample_vendor empty_interp ''exanic0'') = Inr (PyRef 0)
   \<and> heap (snd (acquire_handle sample_vendor empty_interp ''exanic0''))
       = [Capsule 4096 ''exanic_t'']
   \<and> PyCapsule_IsValid (snd (acquire_handle sample_vendor empty_interp ''exanic0''))
        (PyRef 0) CAPSULE_EXANIC
   \<and> exanic_calls (snd (acquire_rx_buffer sample_vendor
        (snd (acquire_handle sample_vendor empty_interp ''exanic0'')) (PyRef 0) 1 0))
       = [exanic_acquire_handle (c_str ''exanic0''), exanic_acquire_rx_buffer 4096 1 0]
   \<and> PyCapsule_IsValid
        \<lparr>heap = [Capsule 4096 ''exanic_rx_t''], exanic_calls = [], error_indicator = None\<rparr>
        (PyRef 0) CAPSULE_EXANIC_RX
   \<and> exanic_calls (snd (release_rx_buffer
        \<lparr>heap = [Capsule 4096 ''exanic_rx_t''], exanic_calls = [], error_indicator = None\<rparr>
        (PyRef 0)))
       = [exanic_release_rx_buffer 4096]"
proof -
  let ?w1 = "snd (acquire_handle sample_vendor empty_interp ''exanic0'')"
  let ?w2 = "\<lparr>heap = [Capsule 4096 ''exanic_rx_t''], exanic_calls = [], error_indicator = None\<rparr>"
  have n1: "\<not> PyCapsule_IsValid empty_interp PyNone CAPSULE_EXANIC"
    and n2: "\<not> PyCapsule_IsValid empty_interp PyNone CAPSULE_EXANIC_RX"
    by (simp_all add: PyCapsule_IsValid_def deref_def)
  have p: "ret_ptr sample_vendor (exanic_calls empty_interp)
             (exanic_acquire_handle (c_str ''exanic0'')) = 4096"
    by (simp add: sample_vendor_def)
  have e: "heap empty_interp = []" "exanic_calls empty_interp = []"
    by (simp_all add: empty_interp_def)
  note t0 = capsules_guard_vendor_calls [where w = empty_interp and cap = PyNone
      and V = sample_vendor and port_number = 0 and buffer_number = 0
      and device_name = "''exanic0''"]
  from t0 n1 n2 p e
  have a: "acquire_rx_buffer sample_vendor empty_interp PyNone 0 0
       = (Inl (RuntimeError ''invalid exanic handle capsule''), empty_interp)"
    and b: "release_rx_buffer empty_interp PyNone = (Inr PyNone, empty_interp)"
    and c: "fst (acquire_handle sample_vendor empty_interp ''exanic0'') = Inr (PyRef 0)"
    and d: "heap ?w1 = [Capsule 4096 ''exanic_t'']"
    and d': "exanic_calls ?w1 = [exanic_acquire_handle (c_str ''exanic0'')]"
    by simp_all
  have v1: "PyCapsule_IsValid ?w1 (PyRef 0) CAPSULE_EXANIC"
    by (rule valid_capsuleI [where p = 4096]) (simp_all add: d CAPSULE_EXANIC_def)
  have v2: "PyCapsule_IsValid ?w2 (PyRef 0) CAPSULE_EXANIC_RX"
    by (rule valid_capsuleI [where p = 4096]) (simp_all add: CAPSULE_EXANIC_RX_def)
  from capsules_guard_vendor_calls [where w = ?w1 and cap = "PyRef 0" and V = sample_vendor
      and port_number = 1 and buffer_number = 0] v1 d d'
  have f: "exanic_calls (snd (acquire_rx_buffer sample_vendor ?w1 (PyRef 0) 1 0))
       = [exanic_acquire_handle (c_str ''exanic0''), exanic_acquire_rx_buffer 4096 1 0]"
    by auto
  from capsules_guard_vendor_calls [where w = ?w2 and cap = "PyRef 0"] v2
  have g: "exanic_calls (snd (release_rx_buffer ?w2 (PyRef 0))) = [exanic_release_rx_buffer 4096]"
    by auto
  from n1 n2 a b p c d v1 f v2 g show ?thesis by simp
qed

end
